theory Spec2Isabelle
  imports Main "HOL-Library.AList"
begin


section \<open>JSON documents and JavaScript strings\<close>

text \<open>
  The backend answers with JSON documents. The dashboard code reads their members
  (\<^verbatim>\<open>d.state\<close>, \<^verbatim>\<open>data.top_performers\<close>), tests them for truthiness and calls array and
  string methods on them, so the documents are modelled in full. Integers stand for the
  numbers: the modelled code formats and compares numbers but takes no decision on
  their value other than truthiness. Strings are byte strings: names are taken to be
  ASCII, where \<^verbatim>\<open>toLowerCase\<close>, \<^verbatim>\<open>length\<close> and \<^verbatim>\<open>includes\<close> act bytewise as they do in
  JavaScript. Converting a value of a document to a string (in a template literal or
  a \<^verbatim>\<open>textContent\<close>) is taken not to throw; a parsed JSON document can make it throw
  only through a member named \<^verbatim>\<open>toString\<close> or \<^verbatim>\<open>valueOf\<close>.
\<close>

datatype json =
    JNull
  | JBool bool
  | JNum int
  | JStr string
  | JArr "json list"
  | JObj "(string \<times> json) list"

text \<open>Every \<^verbatim>\<open>throw\<close> of the source, and the exceptions the runtime raises.\<close>

datatype error =
    NetworkError          \<comment> \<open>\<^verbatim>\<open>fetch\<close> rejected\<close>
  | ApiError              \<comment> \<open>\<^verbatim>\<open>throw new Error(`API Error: ...`)\<close>\<close>
  | SyntaxError           \<comment> \<open>\<^verbatim>\<open>response.json()\<close> rejected\<close>
  | LocalFailed           \<comment> \<open>\<^verbatim>\<open>throw new Error('Local failed')\<close>\<close>
  | RefreshFailed         \<comment> \<open>\<^verbatim>\<open>throw new Error('Failed to refresh data')\<close>\<close>
  | TypeError             \<comment> \<open>a member read of \<^verbatim>\<open>null\<close>/\<^verbatim>\<open>undefined\<close>, a call of a non-function\<close>

fun truthy :: "json \<Rightarrow> bool" where
  "truthy JNull = False"
| "truthy (JBool b) = b"
| "truthy (JNum n) = (n \<noteq> 0)"
| "truthy (JStr s) = (s \<noteq> [])"
| "truthy (JArr _) = True"
| "truthy (JObj _) = True"

text \<open>
  \<^verbatim>\<open>d.name\<close>: a TypeError on \<^verbatim>\<open>null\<close>, \<^verbatim>\<open>undefined\<close> (here \<open>None\<close>) on a value that has
  no such member. \<^verbatim>\<open>JSON.parse\<close> keeps the last of two members of the same name.
\<close>

fun js_get :: "string \<Rightarrow> json \<Rightarrow> error + json option" where
  "js_get name JNull = Inl TypeError"
| "js_get name (JObj members) = Inr (map_of (rev members) name)"
| "js_get name _ = Inr None"

text \<open>\<^verbatim>\<open>v.name\<close> where \<^verbatim>\<open>v\<close> itself may be \<^verbatim>\<open>undefined\<close>.\<close>

fun js_get_opt :: "string \<Rightarrow> json option \<Rightarrow> error + json option" where
  "js_get_opt name None = Inl TypeError"
| "js_get_opt name (Some v) = js_get name v"

text \<open>Truthiness of a string-or-null argument: \<^verbatim>\<open>null\<close> and \<^verbatim>\<open>''\<close> are falsy.\<close>

fun truthy_str :: "string option \<Rightarrow> bool" where
  "truthy_str None = False"
| "truthy_str (Some s) = (s \<noteq> [])"

definition toLowerCase :: "string \<Rightarrow> string" where
  "toLowerCase str =
     map (\<lambda>c. let n = (of_char c :: nat) in if 65 \<le> n \<and> n \<le> 90 then char_of (n + 32) else c) str"

definition toUpperCase :: "string \<Rightarrow> string" where
  "toUpperCase str =
     map (\<lambda>c. let n = (of_char c :: nat) in if 97 \<le> n \<and> n \<le> 122 then char_of (n - 32) else c) str"

fun startsWith :: "string \<Rightarrow> string \<Rightarrow> bool" where
  "startsWith _ [] = True"
| "startsWith [] (_ # _) = False"
| "startsWith (c # cs) (d # ds) = (c = d \<and> startsWith cs ds)"

text \<open>\<^verbatim>\<open>hay.includes(needle)\<close>: \<open>needle\<close> occurs in \<open>hay\<close> as a contiguous substring.\<close>

fun js_includes :: "string \<Rightarrow> string \<Rightarrow> bool" where
  "js_includes [] needle = (needle = [])"
| "js_includes (c # cs) needle = (startsWith (c # cs) needle \<or> js_includes cs needle)"

definition hexDigit :: "nat \<Rightarrow> char" where
  "hexDigit n = ''0123456789ABCDEF'' ! (n mod 16)"

definition unreserved :: "char \<Rightarrow> bool" where
  "unreserved c =
     (let n = (of_char c :: nat) in
        (65 \<le> n \<and> n \<le> 90) \<or> (97 \<le> n \<and> n \<le> 122) \<or> (48 \<le> n \<and> n \<le> 57)
        \<or> n \<in> {45, 95, 46, 33, 126, 42, 39, 40, 41})"

text \<open>
  \<^verbatim>\<open>encodeURIComponent\<close> on the UTF-8 bytes of the string: letters, digits and
  \<^verbatim>\<open>- _ . ! ~ * ' ( )\<close> are kept, every other byte becomes \<^verbatim>\<open>%XX\<close>.
\<close>

definition encodeURIComponent :: "string \<Rightarrow> string" where
  "encodeURIComponent str =
     concat (map (\<lambda>c. if unreserved c then [c]
                       else [CHR ''%'', hexDigit (of_char c div 16), hexDigit (of_char c mod 16)]) str)"

text \<open>A number in a template literal, for \<^verbatim>\<open>limit=${limit}\<close>.\<close>

fun decimal :: "nat \<Rightarrow> string" where
  "decimal n = (if n < 10 then [hexDigit n] else decimal (n div 10) @ [hexDigit (n mod 10)])"

declare decimal.simps [simp del]

subsection \<open>Numbers, for \<^verbatim>\<open>formatVal\<close>\<close>

text \<open>
  \<^verbatim>\<open>formatVal(val)\<close> returns 0 for \<^verbatim>\<open>undefined\<close>, \<^verbatim>\<open>null\<close> and whatever \<^verbatim>\<open>isNaN\<close> accepts,
  \<open>val\<close> itself for an integer, and \<^verbatim>\<open>val.toFixed(1)\<close> otherwise. Only numbers have
  \<^verbatim>\<open>toFixed\<close>, so the call throws for a value that is not a number and yet converts to
  one: a boolean, a string that reads as a number, an array whose text reads as a
  number. What is needed is therefore when \<^verbatim>\<open>Number(text)\<close> is not \<^verbatim>\<open>NaN\<close>: the text,
  trimmed, is empty, a signed decimal literal or \<^verbatim>\<open>Infinity\<close>, or an unsigned hexadecimal,
  octal or binary literal.
\<close>

definition is_space :: "char \<Rightarrow> bool" where
  "is_space c = ((of_char c :: nat) \<in> {9, 10, 11, 12, 13, 32})"

definition is_digit :: "char \<Rightarrow> bool" where
  "is_digit c = (let n = (of_char c :: nat) in 48 \<le> n \<and> n \<le> 57)"

definition is_hex_digit :: "char \<Rightarrow> bool" where
  "is_hex_digit c =
     (let n = (of_char c :: nat) in
        (48 \<le> n \<and> n \<le> 57) \<or> (65 \<le> n \<and> n \<le> 70) \<or> (97 \<le> n \<and> n \<le> 102))"

definition trim :: "string \<Rightarrow> string" where
  "trim str = rev (dropWhile is_space (rev (dropWhile is_space str)))"

definition digits :: "(char \<Rightarrow> bool) \<Rightarrow> string \<Rightarrow> bool" where
  "digits p str = (str \<noteq> [] \<and> list_all p str)"

fun strip_sign :: "string \<Rightarrow> string" where
  "strip_sign [] = []"
| "strip_sign (c # cs) = (if c = CHR ''+'' \<or> c = CHR ''-'' then cs else c # cs)"

text \<open>Digits, an optional point with digits, an optional exponent; at least one digit
  before the exponent.\<close>

definition unsigned_decimal :: "string \<Rightarrow> bool" where
  "unsigned_decimal str =
     (let whole = takeWhile is_digit str;
          r1 = dropWhile is_digit str;
          point = (r1 \<noteq> [] \<and> hd r1 = CHR ''.'');
          frac = (if point then takeWhile is_digit (tl r1) else []);
          r2 = (if point then dropWhile is_digit (tl r1) else r1);
          exponent = (r2 = [] \<or>
                      ((hd r2 = CHR ''e'' \<or> hd r2 = CHR ''E'') \<and> digits is_digit (strip_sign (tl r2))))
      in (whole \<noteq> [] \<or> frac \<noteq> []) \<and> exponent)"

definition radix_literal :: "string \<Rightarrow> bool" where
  "radix_literal str =
     (case str of
        z # x # ds \<Rightarrow>
          z = CHR ''0'' \<and>
          ((x = CHR ''x'' \<or> x = CHR ''X'') \<and> digits is_hex_digit ds
           \<or> (x = CHR ''o'' \<or> x = CHR ''O'') \<and> digits (\<lambda>c. c \<in> set ''01234567'') ds
           \<or> (x = CHR ''b'' \<or> x = CHR ''B'') \<and> digits (\<lambda>c. c \<in> set ''01'') ds)
      | _ \<Rightarrow> False)"

definition reads_as_number :: "string \<Rightarrow> bool" where
  "reads_as_number str =
     (let t = trim str in
        t = [] \<or> strip_sign t = ''Infinity'' \<or> unsigned_decimal (strip_sign t) \<or> radix_literal t)"

definition decimal_int :: "int \<Rightarrow> string" where
  "decimal_int i = (if i < 0 then CHR ''-'' # decimal (nat (- i)) else decimal (nat i))"

fun join_comma :: "string list \<Rightarrow> string" where
  "join_comma [] = []"
| "join_comma [x] = x"
| "join_comma (x # y # ys) = x @ '','' @ join_comma (y # ys)"

text \<open>The text of an element of an array, as \<^verbatim>\<open>Array.prototype.join\<close> takes it.\<close>

fun element_text :: "json \<Rightarrow> string" where
  "element_text JNull = []"
| "element_text (JBool b) = (if b then ''true'' else ''false'')"
| "element_text (JNum n) = decimal_int n"
| "element_text (JStr str) = str"
| "element_text (JArr xs) = join_comma (map element_text xs)"
| "element_text (JObj members) = ''[object Object]''"

fun formatVal_throws :: "json option \<Rightarrow> bool" where
  "formatVal_throws None = False"
| "formatVal_throws (Some JNull) = False"
| "formatVal_throws (Some (JNum n)) = False"
| "formatVal_throws (Some (JBool b)) = True"
| "formatVal_throws (Some (JStr str)) = reads_as_number str"
| "formatVal_throws (Some (JArr xs)) = reads_as_number (element_text (JArr xs))"
| "formatVal_throws (Some (JObj members)) = False"


section \<open>The state of the page\<close>

datatype level = State | District

fun level_name :: "level \<Rightarrow> string" where
  "level_name State = ''state''"
| "level_name District = ''district''"

text \<open>
  What a mount point shows: its static markup, a placeholder, or markup written from a
  dataset (a load that throws midway leaves it written in part; the model does not tell
  the two apart).
\<close>

datatype view = Static | Placeholder string | Shown json

text \<open>The entries of the search suggestion box, in the order the markup is built.\<close>

datatype suggestion =
    StatesHeading
  | StateItem json
  | DistrictsHeading
  | DistrictItem json
  | NoResultsFound

text \<open>What \<^verbatim>\<open>fetch\<close> settles to: a rejection, or a response with its \<^verbatim>\<open>ok\<close> flag and the
  outcome of \<^verbatim>\<open>response.json()\<close> (\<open>None\<close> when the body is not JSON).\<close>

datatype fetch_result = Rejected | Response bool "json option"

text \<open>
  The network, as the page meets it: the reply to the \<open>n\<close>-th request of the page's
  life, sent to a URL, with the time in milliseconds the reply takes.
\<close>

type_synonym network = "nat \<Rightarrow> string \<Rightarrow> nat \<times> fetch_result"

text \<open>
  One record holds the \<^verbatim>\<open>DashboardManager\<close> fields, the cache of the \<^verbatim>\<open>AGHIAPI\<close>
  singleton it uses, the parts of the document the modelled code reads or writes, and
  the environment: the clock \<^verbatim>\<open>Date.now()\<close> reads, the requests sent so far, and the list
  of endpoints \<^verbatim>\<open>fetchAPI\<close> was called with (kept for stating what was asked of the
  gateway; no code reads it). The persona lives in the \<^verbatim>\<open>data-active-persona\<close>
  attribute of the body. \<open>trendMetric\<close> and \<open>trendDistrict\<close> are the values of the two
  selectors, \<open>None\<close> when the element is not on the page. The five flags say whether the
  page has an element that the code tests for before it writes to it: the status tag
  of the top performer, the bar \<^verbatim>\<open>barTop\<close>, three \<^verbatim>\<open>.sla-bar\<close>s, three
  \<^verbatim>\<open>.circular-chart\<close>s, and the table \<^verbatim>\<open>operatorWatchlist\<close>. \<open>console\<close> holds the first
  argument of every \<^verbatim>\<open>console.error\<close>, \<open>toasts\<close> every message \<^verbatim>\<open>showMessage\<close> has shown.
\<close>

record dashboard =
  currentState :: string
  currentMapLevel :: level
  geoState :: "json option"
  geoDistrict :: "json option"
  cache :: "(string \<times> (json \<times> nat)) list"
  clock :: nat
  requests :: "string list"
  calls :: "string list"
  persona :: string
  trendMetric :: "string option"
  trendDistrict :: "string option"
  districtOptions :: "json list"
  rankingType :: string
  hasStatusTag :: bool
  hasBarTop :: bool
  hasSlaBars :: bool
  hasCircles :: bool
  hasWatchlist :: bool
  breadcrumb :: "string list"
  compStateName :: string
  overviewPanel :: view
  mapPanel :: view
  rankingList :: view
  trendGrid :: view
  alertList :: view
  slaBars :: view
  failureCharts :: view
  operatorWatchlist :: view
  toasts :: "(string \<times> string) list"
  console :: "string list"
  suggestions :: "suggestion list option"

section \<open>The API helper (class AGHIAPI)\<close>

definition API_BASE_URL :: string where
  "API_BASE_URL = ''http://localhost:5000/api''"

definition cacheDuration :: int where
  "cacheDuration = 5 * 60 * 1000"

text \<open>\<^verbatim>\<open>await fetch(url)\<close>: the request is recorded and the clock moves by the reply's delay.\<close>

definition fetch :: "network \<Rightarrow> string \<Rightarrow> dashboard \<Rightarrow> fetch_result \<times> dashboard" where
  "fetch net url s =
     (case net (length (requests s)) url of
        (delay, r) \<Rightarrow> (r, s\<lparr>clock := clock s + delay, requests := requests s @ [url]\<rparr>))"

definition console_error :: "string \<Rightarrow> dashboard \<Rightarrow> dashboard" where
  "console_error msg s = s\<lparr>console := console s @ [msg]\<rparr>"

text \<open>The cache check of \<^verbatim>\<open>fetchAPI\<close>:
  \<^verbatim>\<open>cached && Date.now() - cached.timestamp < this.cacheDuration\<close>.\<close>

definition cached :: "dashboard \<Rightarrow> string \<Rightarrow> json option" where
  "cached s cacheKey =
     (case map_of (cache s) cacheKey of
        None \<Rightarrow> None
      | Some (data, timestamp) \<Rightarrow>
          if int (clock s) - int timestamp < cacheDuration then Some data else None)"

text \<open>
  \<^verbatim>\<open>fetchAPI(endpoint, options)\<close> runs in two stretches. The first, up to
  \<^verbatim>\<open>await fetch(...)\<close>, runs where the method is called: it checks the cache and, without a
  fresh entry, sends the request. What it leaves behind is a ticket: the cached value,
  or the number of the request with its URL, its cache key and the time it was sent.
  The second stretch runs when the reply is there: it tests \<^verbatim>\<open>response.ok\<close>, parses the
  body and writes the cache, or logs and rethrows. \<open>options\<close> is the text
  \<^verbatim>\<open>JSON.stringify(options)\<close> of the caller's options object (\<^verbatim>\<open>{}\<close> for the GET
  accessors). \<^verbatim>\<open>Map.set\<close> replaces the value of a key that is present where it stands and
  appends a new key, as \<open>AList.update\<close> does.
\<close>

datatype ticket = FromCache json | Sent nat string string nat

definition ticket_for :: "dashboard \<Rightarrow> string \<Rightarrow> string \<Rightarrow> ticket" where
  "ticket_for s endpoint options =
     (let url = API_BASE_URL @ endpoint;
          cacheKey = url @ options
      in case cached s cacheKey of
           Some data \<Rightarrow> FromCache data
         | None \<Rightarrow> Sent (length (requests s)) url cacheKey (clock s))"

definition fetchAPI_begin :: "string \<Rightarrow> string \<Rightarrow> dashboard \<Rightarrow> ticket \<times> dashboard" where
  "fetchAPI_begin endpoint options s =
     (let s0 = s\<lparr>calls := calls s @ [endpoint]\<rparr> in
      case ticket_for s endpoint options of
        FromCache data \<Rightarrow> (FromCache data, s0)
      | Sent n url cacheKey sent \<Rightarrow>
          (Sent n url cacheKey sent, s0\<lparr>requests := requests s0 @ [url]\<rparr>))"

text \<open>What the code makes of a reply: the three ways a request fails, or the document.\<close>

fun reply_data :: "fetch_result \<Rightarrow> error + json" where
  "reply_data Rejected = Inl NetworkError"
| "reply_data (Response ok body) =
     (if \<not> ok then Inl ApiError
      else (case body of None \<Rightarrow> Inl SyntaxError | Some data \<Rightarrow> Inr data))"

text \<open>The reply is handled at the time it arrives, and not before what was handled
  earlier.\<close>

definition fetchAPI_end :: "network \<Rightarrow> string \<Rightarrow> ticket \<Rightarrow> dashboard \<Rightarrow> (error + json) \<times> dashboard" where
  "fetchAPI_end net endpoint tk s =
     (case tk of
        FromCache data \<Rightarrow> (Inr data, s)
      | Sent n url cacheKey sent \<Rightarrow>
          (case net n url of
             (delay, r) \<Rightarrow>
               (let s1 = s\<lparr>clock := max (clock s) (sent + delay)\<rparr> in
                case reply_data r of
                  Inl e \<Rightarrow> (Inl e, console_error (''Error fetching '' @ endpoint @ '':'') s1)
                | Inr data \<Rightarrow>
                    (Inr data, s1\<lparr>cache := AList.update cacheKey (data, clock s1) (cache s1)\<rparr>))))"

text \<open>\<^verbatim>\<open>await this.fetchAPI(...)\<close>: both stretches, with nothing in between.\<close>

definition fetchAPI :: "network \<Rightarrow> string \<Rightarrow> string \<Rightarrow> dashboard \<Rightarrow> (error + json) \<times> dashboard" where
  "fetchAPI net endpoint options s =
     (case fetchAPI_begin endpoint options s of
        (tk, s1) \<Rightarrow> fetchAPI_end net endpoint tk s1)"

text \<open>The endpoints the accessors build.\<close>

definition mapDataEndpoint :: "level \<Rightarrow> string" where
  "mapDataEndpoint lvl = ''/map-data?level='' @ level_name lvl"

definition trendsEndpoint :: "string \<Rightarrow> string option \<Rightarrow> string" where
  "trendsEndpoint region district =
     (let url = ''/trends?state='' @ encodeURIComponent region in
      case district of
        None \<Rightarrow> url
      | Some d \<Rightarrow> if d \<noteq> [] then url @ ''&district='' @ encodeURIComponent d else url)"

definition rankingsEndpoint :: "level \<Rightarrow> nat \<Rightarrow> string option \<Rightarrow> string" where
  "rankingsEndpoint lvl limit region =
     (let url = ''/rankings?level='' @ level_name lvl @ ''&limit='' @ decimal limit in
      case region of
        None \<Rightarrow> url
      | Some r \<Rightarrow> if r \<noteq> [] then url @ ''&state='' @ encodeURIComponent r else url)"

definition operationsEndpoint :: "string \<Rightarrow> string" where
  "operationsEndpoint region = ''/operations?state='' @ encodeURIComponent region"

definition getOverview :: "network \<Rightarrow> dashboard \<Rightarrow> (error + json) \<times> dashboard" where
  "getOverview net s = fetchAPI net ''/overview'' ''{}'' s"

definition getMapData :: "network \<Rightarrow> level \<Rightarrow> dashboard \<Rightarrow> (error + json) \<times> dashboard" where
  "getMapData net lvl s = fetchAPI net (mapDataEndpoint lvl) ''{}'' s"

definition getTrends :: "network \<Rightarrow> string \<Rightarrow> string option \<Rightarrow> dashboard \<Rightarrow> (error + json) \<times> dashboard" where
  "getTrends net region district s = fetchAPI net (trendsEndpoint region district) ''{}'' s"

definition getRankings :: "network \<Rightarrow> level \<Rightarrow> nat \<Rightarrow> string option \<Rightarrow> dashboard \<Rightarrow> (error + json) \<times> dashboard" where
  "getRankings net lvl limit region s = fetchAPI net (rankingsEndpoint lvl limit region) ''{}'' s"

definition getAnomalies :: "network \<Rightarrow> dashboard \<Rightarrow> (error + json) \<times> dashboard" where
  "getAnomalies net s = fetchAPI net ''/anomalies'' ''{}'' s"

definition getOperationsData :: "network \<Rightarrow> string \<Rightarrow> dashboard \<Rightarrow> (error + json) \<times> dashboard" where
  "getOperationsData net region s = fetchAPI net (operationsEndpoint region) ''{}'' s"



section \<open>Array methods on documents\<close>

text \<open>
  \<^verbatim>\<open>Array.prototype.filter\<close> and \<^verbatim>\<open>find\<close> with a callback that may throw: the rows are
  visited in order and the first exception ends the call. A document that is not an array
  has no such method, which is a TypeError.
\<close>

fun filterE :: "('a \<Rightarrow> error + bool) \<Rightarrow> 'a list \<Rightarrow> error + 'a list" where
  "filterE p [] = Inr []"
| "filterE p (x # xs) =
     (case p x of
        Inl e \<Rightarrow> Inl e
      | Inr keep \<Rightarrow>
          (case filterE p xs of
             Inl e \<Rightarrow> Inl e
           | Inr ys \<Rightarrow> Inr (if keep then x # ys else ys)))"

fun findE :: "('a \<Rightarrow> error + bool) \<Rightarrow> 'a list \<Rightarrow> error + 'a option" where
  "findE p [] = Inr None"
| "findE p (x # xs) =
     (case p x of
        Inl e \<Rightarrow> Inl e
      | Inr found \<Rightarrow> if found then Inr (Some x) else findE p xs)"

fun js_filter :: "(json \<Rightarrow> error + bool) \<Rightarrow> json \<Rightarrow> error + json list" where
  "js_filter p (JArr rows) = filterE p rows"
| "js_filter p _ = Inl TypeError"

fun js_find :: "(json \<Rightarrow> error + bool) \<Rightarrow> json \<Rightarrow> error + json option" where
  "js_find p (JArr rows) = findE p rows"
| "js_find p _ = Inl TypeError"

text \<open>
  \<^verbatim>\<open>data.map(d => ... d.member ...)\<close> and \<^verbatim>\<open>data.forEach(...)\<close> where the callback reads
  members of the row and nothing else can throw: the document must be an array, and
  no row may be \<^verbatim>\<open>null\<close>.
\<close>

fun rows_readable :: "json \<Rightarrow> bool" where
  "rows_readable (JArr rows) = (JNull \<notin> set rows)"
| "rows_readable _ = False"

text \<open>\<^verbatim>\<open>d => d.state === region\<close>\<close>

definition state_is :: "string \<Rightarrow> json \<Rightarrow> error + bool" where
  "state_is region d =
     (case js_get ''state'' d of
        Inl e \<Rightarrow> Inl e
      | Inr v \<Rightarrow> Inr (v = Some (JStr region)))"

text \<open>\<^verbatim>\<open>d => d[member].toLowerCase().includes(query.toLowerCase())\<close>; only a string has
  \<^verbatim>\<open>toLowerCase\<close>.\<close>

definition name_includes :: "string \<Rightarrow> string \<Rightarrow> json \<Rightarrow> error + bool" where
  "name_includes member query d =
     (case js_get member d of
        Inl e \<Rightarrow> Inl e
      | Inr (Some (JStr name)) \<Rightarrow> Inr (js_includes (toLowerCase name) (toLowerCase query))
      | Inr _ \<Rightarrow> Inl TypeError)"

text \<open>The district callback of \<^verbatim>\<open>performMapSearch\<close>; \<^verbatim>\<open>||\<close> does not read the state name
  of a row whose district name matches.\<close>

definition district_matches :: "string \<Rightarrow> json \<Rightarrow> error + bool" where
  "district_matches query d =
     (case name_includes ''district'' query d of
        Inl e \<Rightarrow> Inl e
      | Inr found \<Rightarrow> if found then Inr True else name_includes ''state'' query d)"


section \<open>The dashboard (class DashboardManager)\<close>

text \<open>
  The class defines \<^verbatim>\<open>setPersona\<close>, \<^verbatim>\<open>loadMap\<close>, \<^verbatim>\<open>populateDistrictDropdown\<close> and
  \<^verbatim>\<open>handleStateChange\<close> twice; a later method of a class body replaces an earlier one of
  the same name, so the definitions below are the last ones of the file.

  A load is an \<^verbatim>\<open>async\<close> method: it runs where it is called up to its first \<^verbatim>\<open>await\<close>
  (it reads the fields it needs, asks the gateway, which checks the cache and sends
  the request) and goes on when the reply is there. Each load is therefore given as a
  pair: \<open>_begin\<close>, which leaves the request that is out, and \<open>_end\<close>, which takes the
  reply and draws the panel. Where the source awaits a load at once, the two run one
  after the other. Where it starts several loads together (\<^verbatim>\<open>Promise.all\<close>, or calls it
  does not await), all of them begin, in the order of the source, before any of them
  ends, and they end in the order in which they began: replies come back in the order
  of the requests. A method that a continuation starts without awaiting it (the
  \<^verbatim>\<open>setPersona\<close> of \<^verbatim>\<open>loadOverview\<close>) is run to its end there. Every load catches its own
  exceptions, so a load is a function from state to state.

  The model follows a load to the point where the rendering code (Plotly, markup built
  row by row) has what it needs: a load fails where the source reads a member of
  \<^verbatim>\<open>null\<close> or \<^verbatim>\<open>undefined\<close>, calls an array method on what is not an array, or calls
  \<^verbatim>\<open>toFixed\<close> or \<^verbatim>\<open>toUpperCase\<close> on a value that has none. Elements the code reads without
  testing for them are taken to be on the page; headings and styles that nothing reads
  back are left out.
\<close>

definition showMessage :: "string \<Rightarrow> string \<Rightarrow> dashboard \<Rightarrow> dashboard" where
  "showMessage message kind s = s\<lparr>toasts := toasts s @ [(message, kind)]\<rparr>"

definition showError :: "string \<Rightarrow> dashboard \<Rightarrow> dashboard" where
  "showError message s = showMessage message ''error'' s"

text \<open>A call of a GET accessor that is out: the endpoint and the ticket.\<close>

datatype pending = Pending string ticket

definition api_call :: "string \<Rightarrow> dashboard \<Rightarrow> pending \<times> dashboard" where
  "api_call endpoint s =
     (case fetchAPI_begin endpoint ''{}'' s of (tk, s1) \<Rightarrow> (Pending endpoint tk, s1))"

definition api_reply :: "network \<Rightarrow> pending \<Rightarrow> dashboard \<Rightarrow> (error + json) \<times> dashboard" where
  "api_reply net p s = (case p of Pending endpoint tk \<Rightarrow> fetchAPI_end net endpoint tk s)"

text \<open>What the gateway hands back for a call that is out; it does not depend on what
  the page has become in the meantime.\<close>

definition reply_of :: "network \<Rightarrow> pending \<Rightarrow> error + json" where
  "reply_of net p =
     (case p of
        Pending endpoint tk \<Rightarrow>
          (case tk of
             FromCache data \<Rightarrow> Inr data
           | Sent n url cacheKey sent \<Rightarrow> reply_data (snd (net n url))))"

subsection \<open>The map\<close>

fun geoData :: "dashboard \<Rightarrow> level \<Rightarrow> json option" where
  "geoData s State = geoState s"
| "geoData s District = geoDistrict s"

fun set_geoData :: "level \<Rightarrow> json \<Rightarrow> dashboard \<Rightarrow> dashboard" where
  "set_geoData State g s = s\<lparr>geoState := Some g\<rparr>"
| "set_geoData District g s = s\<lparr>geoDistrict := Some g\<rparr>"

text \<open>\<^verbatim>\<open>!this.geoData[level]\<close> is false when a truthy document is held.\<close>

definition geoLoaded :: "dashboard \<Rightarrow> level \<Rightarrow> bool" where
  "geoLoaded s lvl = (case geoData s lvl of None \<Rightarrow> False | Some g \<Rightarrow> truthy g)"

definition localUrl :: "level \<Rightarrow> string" where
  "localUrl lvl = (case lvl of State \<Rightarrow> ''data/india_state.geojson'' | District \<Rightarrow> ''data/india_district.geojson'')"

definition remoteUrl :: "level \<Rightarrow> string" where
  "remoteUrl lvl =
     (case lvl of
        State \<Rightarrow> ''https://raw.githubusercontent.com/geohacker/india/master/state/india_state.geojson''
      | District \<Rightarrow> ''https://raw.githubusercontent.com/geohacker/india/master/district/india_district.geojson'')"

text \<open>
  The block "Load GeoJSON if not already loaded" of \<^verbatim>\<open>loadMap\<close> (the spec's
  \<^verbatim>\<open>ensureLoaded\<close>). The local read fails when the fetch rejects, the status is not
  \<^verbatim>\<open>ok\<close> or the body is not JSON; the remote response is not tested for \<^verbatim>\<open>ok\<close>.
\<close>

definition loadGeoJSON :: "network \<Rightarrow> level \<Rightarrow> dashboard \<Rightarrow> (error + unit) \<times> dashboard" where
  "loadGeoJSON net lvl s =
     (if geoLoaded s lvl then (Inr (), s)
      else (case fetch net (localUrl lvl) s of
              (Response True (Some g), s1) \<Rightarrow> (Inr (), set_geoData lvl g s1)
            | (_, s1) \<Rightarrow>
                (case fetch net (remoteUrl lvl) s1 of
                   (Rejected, s2) \<Rightarrow> (Inl NetworkError, s2)
                 | (Response ok None, s2) \<Rightarrow> (Inl SyntaxError, s2)
                 | (Response ok (Some g), s2) \<Rightarrow> (Inr (), set_geoData lvl g s2))))"

definition loadMap_failed :: "dashboard \<Rightarrow> dashboard" where
  "loadMap_failed s = showError ''Failed to load map data'' (console_error ''Error loading map:'' s)"

text \<open>\<^verbatim>\<open>if (stateFilter) { mapData = mapData.filter(d => d.state === stateFilter); }\<close>\<close>

definition filterByState :: "string option \<Rightarrow> json \<Rightarrow> error + json" where
  "filterByState stateFilter mapData =
     (case stateFilter of
        None \<Rightarrow> Inr mapData
      | Some region \<Rightarrow>
          if region \<noteq> [] then map_sum id JArr (js_filter (state_is region) mapData)
          else Inr mapData)"

text \<open>\<^verbatim>\<open>const level = stateFilter ? 'district' : this.currentMapLevel\<close>\<close>

definition loadMap_level :: "string option \<Rightarrow> dashboard \<Rightarrow> level" where
  "loadMap_level stateFilter s = (if truthy_str stateFilter then District else currentMapLevel s)"

text \<open>The first stretch leaves the level it chose with the request.\<close>

definition loadMap_begin :: "string option \<Rightarrow> dashboard \<Rightarrow> (level \<times> pending) \<times> dashboard" where
  "loadMap_begin stateFilter s =
     (let lvl = loadMap_level stateFilter s in
      case api_call (mapDataEndpoint lvl) s of (p, s1) \<Rightarrow> ((lvl, p), s1))"

text \<open>The rest of \<^verbatim>\<open>loadMap\<close>: the filter, the geometry, then the trace built with
  \<^verbatim>\<open>mapData.map(...)\<close> and handed to Plotly.\<close>

definition loadMap_end :: "network \<Rightarrow> string option \<Rightarrow> level \<times> pending \<Rightarrow> dashboard \<Rightarrow> dashboard" where
  "loadMap_end net stateFilter started s =
     (case api_reply net (snd started) s of
        (Inl e, s1) \<Rightarrow> loadMap_failed s1
      | (Inr mapData, s1) \<Rightarrow>
          (case filterByState stateFilter mapData of
             Inl e \<Rightarrow> loadMap_failed s1
           | Inr rows \<Rightarrow>
               (case loadGeoJSON net (fst started) s1 of
                  (Inl e, s2) \<Rightarrow> loadMap_failed s2
                | (Inr u, s2) \<Rightarrow>
                    if rows_readable rows then s2\<lparr>mapPanel := Shown rows\<rparr>
                    else loadMap_failed s2)))"

definition loadMap :: "network \<Rightarrow> string option \<Rightarrow> dashboard \<Rightarrow> dashboard" where
  "loadMap net stateFilter s =
     (case loadMap_begin stateFilter s of (started, s1) \<Rightarrow> loadMap_end net stateFilter started s1)"

subsection \<open>Rankings\<close>

text \<open>The first stretch reads the selector \<^verbatim>\<open>rankingType\<close> and leaves its value with the
  request.\<close>

definition loadRankings_begin :: "dashboard \<Rightarrow> (string \<times> pending) \<times> dashboard" where
  "loadRankings_begin s =
     (let stateParam = (if currentState s = ''National'' then None else Some (currentState s))
      in case api_call (rankingsEndpoint (currentMapLevel s) 10 stateParam) s of
           (p, s1) \<Rightarrow> ((rankingType s, p), s1))"

text \<open>
  The list is emptied, then filled row by row; a row that is \<^verbatim>\<open>null\<close> stops the loop with
  the rows before it in place.
\<close>

definition loadRankings_end :: "network \<Rightarrow> string \<times> pending \<Rightarrow> dashboard \<Rightarrow> dashboard" where
  "loadRankings_end net started s =
     (case api_reply net (snd started) s of
        (Inl e, s1) \<Rightarrow> console_error ''Error loading rankings:'' s1
      | (Inr data, s1) \<Rightarrow>
          (case js_get (if fst started = ''top'' then ''top_performers'' else ''bottom_performers'') data of
             Inl e \<Rightarrow> console_error ''Error loading rankings:'' s1
           | Inr (Some (JArr rankings)) \<Rightarrow>
               if JNull \<in> set rankings
               then console_error ''Error loading rankings:''
                      (s1\<lparr>rankingList := Shown (JArr (takeWhile (\<lambda>item. item \<noteq> JNull) rankings))\<rparr>)
               else s1\<lparr>rankingList := Shown (JArr rankings)\<rparr>
           | Inr _ \<Rightarrow> console_error ''Error loading rankings:'' (s1\<lparr>rankingList := Shown (JArr [])\<rparr>)))"

definition loadRankings :: "network \<Rightarrow> dashboard \<Rightarrow> dashboard" where
  "loadRankings net s =
     (case loadRankings_begin s of (started, s1) \<Rightarrow> loadRankings_end net started s1)"

subsection \<open>The district selector\<close>

text \<open>
  \<^verbatim>\<open>populateDistrictDropdown\<close> returns at once when the page has no district selector or
  the region is National; otherwise it asks for the district rows and, when they are
  there, keeps those of the region that is current by then. Writing the options leaves
  "All Districts" selected.
\<close>

definition populateDistrictDropdown_begin :: "dashboard \<Rightarrow> pending option \<times> dashboard" where
  "populateDistrictDropdown_begin s =
     (if trendDistrict s = None \<or> currentState s = ''National'' then (None, s)
      else (case api_call (mapDataEndpoint District) s of (p, s1) \<Rightarrow> (Some p, s1)))"

definition populateDistrictDropdown_end :: "network \<Rightarrow> pending option \<Rightarrow> dashboard \<Rightarrow> dashboard" where
  "populateDistrictDropdown_end net started s =
     (case started of
        None \<Rightarrow> s
      | Some p \<Rightarrow>
          (case api_reply net p s of
             (Inl e, s1) \<Rightarrow> console_error ''Error populating districts:'' s1
           | (Inr mapData, s1) \<Rightarrow>
               (case js_filter (state_is (currentState s1)) mapData of
                  Inl e \<Rightarrow> console_error ''Error populating districts:'' s1
                | Inr stateDistricts \<Rightarrow>
                    s1\<lparr>districtOptions := stateDistricts, trendDistrict := Some []\<rparr>)))"

definition populateDistrictDropdown :: "network \<Rightarrow> dashboard \<Rightarrow> dashboard" where
  "populateDistrictDropdown net s =
     (case populateDistrictDropdown_begin s of
        (started, s1) \<Rightarrow> populateDistrictDropdown_end net started s1)"

subsection \<open>Trends\<close>

text \<open>\<^verbatim>\<open>data.length === 0\<close>\<close>

fun length_is_0 :: "json \<Rightarrow> bool" where
  "length_is_0 (JArr rows) = (rows = [])"
| "length_is_0 (JStr str) = (str = [])"
| "length_is_0 (JObj members) = (map_of (rev members) ''length'' = Some (JNum 0))"
| "length_is_0 _ = False"

text \<open>
  What \<^verbatim>\<open>loadTrends\<close> makes of the document: the placeholder for
  \<^verbatim>\<open>!data || data.length === 0\<close>, the five charts for an array of rows
  (\<^verbatim>\<open>data.map(d => d.month)\<close> comes first and throws before anything is drawn).
\<close>

definition drawTrends :: "json \<Rightarrow> error + view" where
  "drawTrends data =
     (if \<not> truthy data then Inr (Placeholder ''No data'')
      else if length_is_0 data then Inr (Placeholder ''No data'')
      else if rows_readable data then Inr (Shown data)
      else Inl TypeError)"

text \<open>\<^verbatim>\<open>const selectedDistrict = districtSelector ? (districtSelector.value || null) : null\<close>\<close>

definition selectedDistrict :: "dashboard \<Rightarrow> string option" where
  "selectedDistrict s =
     (case trendDistrict s of
        None \<Rightarrow> None
      | Some v \<Rightarrow> if v \<noteq> [] then Some v else None)"

definition loadTrends_begin :: "dashboard \<Rightarrow> pending \<times> dashboard" where
  "loadTrends_begin s = api_call (trendsEndpoint (currentState s) (selectedDistrict s)) s"

definition loadTrends_end :: "network \<Rightarrow> pending \<Rightarrow> dashboard \<Rightarrow> dashboard" where
  "loadTrends_end net p s =
     (case api_reply net p s of
        (Inl e, s1) \<Rightarrow> console_error ''Trends error:'' s1
      | (Inr data, s1) \<Rightarrow>
          (case drawTrends data of
             Inl e \<Rightarrow> console_error ''Trends error:'' s1
           | Inr v \<Rightarrow> s1\<lparr>trendGrid := v\<rparr>))"

definition loadTrends :: "network \<Rightarrow> dashboard \<Rightarrow> dashboard" where
  "loadTrends net s = (case loadTrends_begin s of (p, s1) \<Rightarrow> loadTrends_end net p s1)"

subsection \<open>Alerts\<close>

text \<open>
  One alert: \<^verbatim>\<open>alert.district.toUpperCase()\<close> is called before the item is appended,
  \<^verbatim>\<open>typeWriter(alert.alert_message, ...)\<close> after. The first needs a string; the second
  reads \<^verbatim>\<open>text.length\<close> and, when that is positive, calls \<^verbatim>\<open>text.charAt\<close>.
\<close>

definition alert_heading_throws :: "json \<Rightarrow> bool" where
  "alert_heading_throws alert =
     (case js_get ''district'' alert of
        Inr (Some (JStr district)) \<Rightarrow> False
      | _ \<Rightarrow> True)"

fun typeWriter_throws :: "json option \<Rightarrow> bool" where
  "typeWriter_throws None = True"
| "typeWriter_throws (Some JNull) = True"
| "typeWriter_throws (Some (JArr xs)) = (xs \<noteq> [])"
| "typeWriter_throws (Some (JObj members)) =
     (case map_of (rev members) ''length'' of Some (JNum n) \<Rightarrow> 0 < n | _ \<Rightarrow> False)"
| "typeWriter_throws (Some _) = False"

text \<open>The items appended before the loop ends or throws, and whether it threw.\<close>

fun alert_items :: "json list \<Rightarrow> json list \<times> bool" where
  "alert_items [] = ([], False)"
| "alert_items (alert # alerts) =
     (if alert_heading_throws alert then ([], True)
      else if typeWriter_throws (case js_get ''alert_message'' alert of Inr v \<Rightarrow> v | Inl e \<Rightarrow> None)
           then ([alert], True)
      else (case alert_items alerts of (shown, threw) \<Rightarrow> (alert # shown, threw)))"

definition loadAlerts_begin :: "dashboard \<Rightarrow> pending \<times> dashboard" where
  "loadAlerts_begin s = api_call ''/anomalies'' s"

definition loadAlerts_end :: "network \<Rightarrow> pending \<Rightarrow> dashboard \<Rightarrow> dashboard" where
  "loadAlerts_end net p s =
     (case api_reply net p s of
        (Inl e, s1) \<Rightarrow> console_error ''Alerts error:'' s1
      | (Inr data, s1) \<Rightarrow>
          (let s2 = s1\<lparr>alertList := Shown (JArr [])\<rparr> in
           case js_get ''priorities'' data of
             Inl e \<Rightarrow> console_error ''Alerts error:'' s2
           | Inr None \<Rightarrow> s2\<lparr>alertList := Placeholder ''No priority alerts detected.''\<rparr>
           | Inr (Some priorities) \<Rightarrow>
               if \<not> truthy priorities then s2\<lparr>alertList := Placeholder ''No priority alerts detected.''\<rparr>
               else if length_is_0 priorities then s2\<lparr>alertList := Placeholder ''No priority alerts detected.''\<rparr>
               else (case priorities of
                       JArr alerts \<Rightarrow>
                         (case alert_items alerts of
                            (shown, threw) \<Rightarrow>
                              if threw then console_error ''Alerts error:'' (s2\<lparr>alertList := Shown (JArr shown)\<rparr>)
                              else s2\<lparr>alertList := Shown (JArr shown)\<rparr>)
                     | _ \<Rightarrow> console_error ''Alerts error:'' s2)))"

definition loadAlerts :: "network \<Rightarrow> dashboard \<Rightarrow> dashboard" where
  "loadAlerts net s = (case loadAlerts_begin s of (p, s1) \<Rightarrow> loadAlerts_end net p s1)"

subsection \<open>Operations\<close>

text \<open>
  The three parts of \<^verbatim>\<open>loadCriticalOps\<close>, each returning the exception that ends it, if
  any, and the page as it then is.
  \<^item> The SLA bars, when the page has three of them: the first width is written as soon as
    \<^verbatim>\<open>data.sla.enrollment_tat\<close> has been read; each of the three values then goes through
    \<^verbatim>\<open>formatVal\<close>.
  \<^item> The failure charts, when the page has three of them: the three values go through
    \<^verbatim>\<open>formatVal\<close> before anything is written.
  \<^item> The watchlist: \<^verbatim>\<open>data.watchlist.map(r => ...)\<close> is built whether or not the page has
    the table.
\<close>

definition member_or_undefined :: "string \<Rightarrow> json \<Rightarrow> json option" where
  "member_or_undefined name v = (case js_get name v of Inr m \<Rightarrow> m | Inl e \<Rightarrow> None)"

definition drawSla :: "json \<Rightarrow> dashboard \<Rightarrow> error option \<times> dashboard" where
  "drawSla data s =
     (if \<not> hasSlaBars s then (None, s)
      else (case js_get ''sla'' data of
              Inl e \<Rightarrow> (Some e, s)
            | Inr None \<Rightarrow> (Some TypeError, s)
            | Inr (Some sla) \<Rightarrow>
                if sla = JNull then (Some TypeError, s)
                else if formatVal_throws (member_or_undefined ''enrollment_tat'' sla)
                        \<or> formatVal_throws (member_or_undefined ''update_tat'' sla)
                        \<or> formatVal_throws (member_or_undefined ''grievance_tat'' sla)
                     then (Some TypeError, s\<lparr>slaBars := Shown sla\<rparr>)
                else (None, s\<lparr>slaBars := Shown sla\<rparr>)))"

definition drawFailures :: "json \<Rightarrow> dashboard \<Rightarrow> error option \<times> dashboard" where
  "drawFailures data s =
     (if \<not> hasCircles s then (None, s)
      else (case js_get ''failures'' data of
              Inl e \<Rightarrow> (Some e, s)
            | Inr None \<Rightarrow> (Some TypeError, s)
            | Inr (Some failures) \<Rightarrow>
                if failures = JNull then (Some TypeError, s)
                else if formatVal_throws (member_or_undefined ''bio_mismatch'' failures)
                        \<or> formatVal_throws (member_or_undefined ''doc_quality'' failures)
                        \<or> formatVal_throws (member_or_undefined ''tech_error'' failures)
                     then (Some TypeError, s)
                else (None, s\<lparr>failureCharts := Shown failures\<rparr>)))"

definition drawWatchlist :: "json \<Rightarrow> dashboard \<Rightarrow> error option \<times> dashboard" where
  "drawWatchlist data s =
     (case js_get ''watchlist'' data of
        Inl e \<Rightarrow> (Some e, s)
      | Inr None \<Rightarrow> (Some TypeError, s)
      | Inr (Some watchlist) \<Rightarrow>
          if rows_readable watchlist
          then (None, if hasWatchlist s then s\<lparr>operatorWatchlist := Shown watchlist\<rparr> else s)
          else (Some TypeError, s))"

definition drawOps :: "json \<Rightarrow> dashboard \<Rightarrow> error option \<times> dashboard" where
  "drawOps data s =
     (case drawSla data s of
        (Some e, s1) \<Rightarrow> (Some e, s1)
      | (None, s1) \<Rightarrow>
          (case drawFailures data s1 of
             (Some e, s2) \<Rightarrow> (Some e, s2)
           | (None, s2) \<Rightarrow> drawWatchlist data s2))"

definition loadCriticalOps_begin :: "dashboard \<Rightarrow> pending \<times> dashboard" where
  "loadCriticalOps_begin s = api_call (operationsEndpoint (currentState s)) s"

definition loadCriticalOps_end :: "network \<Rightarrow> pending \<Rightarrow> dashboard \<Rightarrow> dashboard" where
  "loadCriticalOps_end net p s =
     (case api_reply net p s of
        (Inl e, s1) \<Rightarrow> console_error ''Critical Ops Load Error:'' s1
      | (Inr data, s1) \<Rightarrow>
          (case drawOps data s1 of
             (Some e, s2) \<Rightarrow> console_error ''Critical Ops Load Error:'' s2
           | (None, s2) \<Rightarrow> s2))"

definition loadCriticalOps :: "network \<Rightarrow> dashboard \<Rightarrow> dashboard" where
  "loadCriticalOps net s =
     (case loadCriticalOps_begin s of (p, s1) \<Rightarrow> loadCriticalOps_end net p s1)"


subsection \<open>Navigation\<close>

text \<open>
  \<^verbatim>\<open>handleStateChange(newState)\<close> in the order of its statements. It suspends twice: at
  \<^verbatim>\<open>await this.populateDistrictDropdown()\<close>, taken only when the new region is not
  National, and at \<^verbatim>\<open>await Promise.all([...])\<close>. Its parts are
  \<^item> \<open>hsc_enter\<close>: the assignment \<^verbatim>\<open>this.currentState = newState\<close> (and the two selectors
    synchronised with it);
  \<^item> \<open>hsc_breadcrumb\<close>: the block "Update Breadcrumbs", which also assigns
    \<^verbatim>\<open>this.currentMapLevel\<close>;
  \<^item> \<open>hsc_reload_begin\<close> and \<open>hsc_reload_end\<close>: the four loads of the \<^verbatim>\<open>Promise.all\<close>;
  \<^item> \<open>hsc_leave\<close>: the comparison label and the toast.
\<close>

definition hsc_enter :: "string \<Rightarrow> dashboard \<Rightarrow> dashboard" where
  "hsc_enter newState s = s\<lparr>currentState := newState\<rparr>"

definition hsc_breadcrumb :: "string \<Rightarrow> dashboard \<Rightarrow> dashboard" where
  "hsc_breadcrumb newState s =
     (if newState = ''National''
      then s\<lparr>breadcrumb := [''India''], currentMapLevel := State\<rparr>
      else s\<lparr>breadcrumb := [''India'', newState], currentMapLevel := District\<rparr>)"

text \<open>\<^verbatim>\<open>const stateToLoad = newState === 'National' ? null : newState\<close>\<close>

definition stateToLoad :: "string \<Rightarrow> string option" where
  "stateToLoad newState = (if newState = ''National'' then None else Some newState)"

text \<open>The requests of the four loads, as they are out after the first stretch of each.\<close>

record reload =
  mapLoad :: "level \<times> pending"
  trendsLoad :: pending
  rankingsLoad :: "string \<times> pending"
  opsLoad :: pending

definition hsc_reload_begin :: "string \<Rightarrow> dashboard \<Rightarrow> reload \<times> dashboard" where
  "hsc_reload_begin newState s =
     (case loadMap_begin (stateToLoad newState) s of
        (m, s1) \<Rightarrow>
          (case loadTrends_begin s1 of
             (t, s2) \<Rightarrow>
               (case loadRankings_begin s2 of
                  (r, s3) \<Rightarrow>
                    (case loadCriticalOps_begin s3 of
                       (ops, s4) \<Rightarrow>
                         (\<lparr>mapLoad = m, trendsLoad = t, rankingsLoad = r, opsLoad = ops\<rparr>, s4)))))"

definition hsc_reload_end :: "network \<Rightarrow> string \<Rightarrow> reload \<Rightarrow> dashboard \<Rightarrow> dashboard" where
  "hsc_reload_end net newState started s =
     (let s1 = loadMap_end net (stateToLoad newState) (mapLoad started) s;
          s2 = loadTrends_end net (trendsLoad started) s1;
          s3 = loadRankings_end net (rankingsLoad started) s2
      in loadCriticalOps_end net (opsLoad started) s3)"

definition hsc_leave :: "string \<Rightarrow> dashboard \<Rightarrow> dashboard" where
  "hsc_leave newState s = showMessage (''Viewing '' @ newState) ''info'' (s\<lparr>compStateName := newState\<rparr>)"

text \<open>
  What is left of a call of \<^verbatim>\<open>handleStateChange\<close> once its first stretch has run: nothing,
  one stretch, or a stretch that leaves one more.
\<close>

datatype stretches =
    Done
  | Last "dashboard \<Rightarrow> dashboard"
  | Next "dashboard \<Rightarrow> dashboard \<times> (dashboard \<Rightarrow> dashboard)"

text \<open>From the breadcrumbs to the second \<^verbatim>\<open>await\<close>, and the stretch that follows it.\<close>

definition hsc_after_dropdown :: "network \<Rightarrow> string \<Rightarrow> dashboard \<Rightarrow> dashboard \<times> (dashboard \<Rightarrow> dashboard)" where
  "hsc_after_dropdown net newState s =
     (case hsc_reload_begin newState (hsc_breadcrumb newState s) of
        (started, s1) \<Rightarrow> (s1, \<lambda>s2. hsc_leave newState (hsc_reload_end net newState started s2)))"

text \<open>The first stretch of \<^verbatim>\<open>handleStateChange(newState)\<close>, run where it is called, and
  what is left of the call.\<close>

definition hsc_stretches :: "network \<Rightarrow> string \<Rightarrow> dashboard \<Rightarrow> dashboard \<times> stretches" where
  "hsc_stretches net newState s =
     (let s1 = hsc_enter newState s in
      if newState \<noteq> ''National''
      then (case populateDistrictDropdown_begin s1 of
              (started, s2) \<Rightarrow>
                (s2, Next (\<lambda>s3. hsc_after_dropdown net newState (populateDistrictDropdown_end net started s3))))
      else (case hsc_after_dropdown net newState s1 of (s2, k) \<Rightarrow> (s2, Last k)))"

text \<open>One stretch of a suspended call, and all of them.\<close>

fun advance :: "stretches \<Rightarrow> dashboard \<Rightarrow> dashboard \<times> stretches" where
  "advance Done s = (s, Done)"
| "advance (Last k) s = (k s, Done)"
| "advance (Next k) s = (case k s of (s1, k1) \<Rightarrow> (s1, Last k1))"

fun run_all :: "stretches \<Rightarrow> dashboard \<Rightarrow> dashboard" where
  "run_all Done s = s"
| "run_all (Last k) s = k s"
| "run_all (Next k) s = (case k s of (s1, k1) \<Rightarrow> k1 s1)"

text \<open>A call that nothing else overlaps (\<^verbatim>\<open>await this.handleStateChange(...)\<close>).\<close>

definition handleStateChange :: "network \<Rightarrow> string \<Rightarrow> dashboard \<Rightarrow> dashboard" where
  "handleStateChange net newState s =
     (case hsc_stretches net newState s of (s1, rest) \<Rightarrow> run_all rest s1)"

definition drillDownToState :: "network \<Rightarrow> string \<Rightarrow> dashboard \<Rightarrow> dashboard" where
  "drillDownToState net stateName s = handleStateChange net stateName s"

text \<open>
  \<^verbatim>\<open>setPersona(persona)\<close>, the second definition of the class. The \<^verbatim>\<open>ops\<close> branch starts
  \<^verbatim>\<open>loadTrends\<close> (when the page has the metric selector) and \<^verbatim>\<open>loadCriticalOps\<close> without
  awaiting either: both send their requests before either reply is handled.
\<close>

definition setPersona :: "network \<Rightarrow> string \<Rightarrow> dashboard \<Rightarrow> dashboard" where
  "setPersona net p s =
     (let s1 = showMessage (''Switched to '' @ toUpperCase p @ '' view'') ''info'' (s\<lparr>persona := p\<rparr>) in
      if p = ''national'' then
        (if currentState s1 \<noteq> ''National'' then drillDownToState net ''National'' s1
         else loadMap net None s1)
      else if p = ''state'' then
        (if currentState s1 = ''National''
         then showMessage ''Demo: Assessing Maharashtra State Data'' ''info''
                (drillDownToState net ''Maharashtra'' s1)
         else loadMap net (Some (currentState s1)) s1)
      else if p = ''ops'' then
        (case trendMetric s1 of
           None \<Rightarrow> loadCriticalOps net s1
         | Some old \<Rightarrow>
             (case loadTrends_begin (s1\<lparr>trendMetric := Some ''updates''\<rparr>) of
                (t, s2) \<Rightarrow>
                  (case loadCriticalOps_begin s2 of
                     (ops, s3) \<Rightarrow> loadCriticalOps_end net ops (loadTrends_end net t s3))))
      else s1)"

subsection \<open>Startup and refresh\<close>

text \<open>
  The KPI cards. \<^verbatim>\<open>data.national_aghi.toFixed(1)\<close> is the first statement and needs a
  number; \<^verbatim>\<open>data.top_pillar.toUpperCase()\<close> is called when the page has the status tag and
  the pillar is truthy, and needs a string; \<^verbatim>\<open>updateComparisonBars\<close> writes the comparison
  label and, when the page has the bar \<^verbatim>\<open>barTop\<close>, calls \<^verbatim>\<open>data.top_score.toFixed(1)\<close>.
\<close>

definition is_number :: "json option \<Rightarrow> bool" where
  "is_number v = (case v of Some (JNum n) \<Rightarrow> True | _ \<Rightarrow> False)"

definition top_pillar_throws :: "json option \<Rightarrow> bool" where
  "top_pillar_throws v =
     (case v of
        None \<Rightarrow> False
      | Some (JStr pillar) \<Rightarrow> False
      | Some other \<Rightarrow> truthy other)"

definition drawOverview :: "json \<Rightarrow> dashboard \<Rightarrow> error option \<times> dashboard" where
  "drawOverview data s =
     (case js_get ''national_aghi'' data of
        Inl e \<Rightarrow> (Some e, s)
      | Inr aghi \<Rightarrow>
          if \<not> is_number aghi then (Some TypeError, s)
          else (let s1 = s\<lparr>overviewPanel := Shown data\<rparr> in
                if hasStatusTag s1 \<and> top_pillar_throws (member_or_undefined ''top_pillar'' data)
                then (Some TypeError, s1)
                else (let s2 = s1\<lparr>compStateName := ''National''\<rparr> in
                      if hasBarTop s2 \<and> \<not> is_number (member_or_undefined ''top_score'' data)
                      then (Some TypeError, s2)
                      else (None, s2))))"

definition loadOverview_failed :: "dashboard \<Rightarrow> dashboard" where
  "loadOverview_failed s =
     showError ''Failed to load overview data'' (console_error ''Error loading overview:'' s)"

definition loadOverview_begin :: "dashboard \<Rightarrow> pending \<times> dashboard" where
  "loadOverview_begin s = api_call ''/overview'' s"

text \<open>
  Once the cards are written \<^verbatim>\<open>loadOverview\<close> asks for the state rows to fill the state
  selectors (\<^verbatim>\<open>this.api.getMapData('state').then(...)\<close>, a promise nobody awaits: a failure
  there is logged by the gateway and changes nothing else) and calls
  \<^verbatim>\<open>this.setPersona('national')\<close>, which it does not await either.
\<close>

definition loadOverview_end :: "network \<Rightarrow> pending \<Rightarrow> dashboard \<Rightarrow> dashboard" where
  "loadOverview_end net p s =
     (case api_reply net p s of
        (Inl e, s1) \<Rightarrow> loadOverview_failed s1
      | (Inr data, s1) \<Rightarrow>
          (case drawOverview data s1 of
             (Some e, s2) \<Rightarrow> loadOverview_failed s2
           | (None, s2) \<Rightarrow>
               (case api_call (mapDataEndpoint State) s2 of
                  (states, s3) \<Rightarrow> snd (api_reply net states (setPersona net ''national'' s3)))))"

definition loadOverview :: "network \<Rightarrow> dashboard \<Rightarrow> dashboard" where
  "loadOverview net s = (case loadOverview_begin s of (p, s1) \<Rightarrow> loadOverview_end net p s1)"




subsection \<open>Search\<close>

definition showSearchSuggestions ::
    "string \<Rightarrow> json \<Rightarrow> json list \<Rightarrow> dashboard \<Rightarrow> (error + unit) \<times> dashboard" where
  "showSearchSuggestions query stateData districtMatches s =
     (let s1 = s\<lparr>suggestions := None\<rparr> in
      if length query < 2 then (Inr (), s1)
      else (case js_filter (name_includes ''state'' query) stateData of
              Inl e \<Rightarrow> (Inl e, s1)
            | Inr found \<Rightarrow>
                (let matchingStates = take 5 found;
                     html = (if matchingStates \<noteq> [] then StatesHeading # map StateItem matchingStates else [])
                          @ (if districtMatches \<noteq> [] then DistrictsHeading # map DistrictItem (take 8 districtMatches)
                             else []);
                     html' = (if html = [] then [NoResultsFound] else html)
                 in (Inr (), s1\<lparr>suggestions := Some html'\<rparr>))))"

definition mapSearch_failed :: "dashboard \<Rightarrow> dashboard" where
  "mapSearch_failed s = console_error ''Map search error:'' s"

definition performMapSearch :: "network \<Rightarrow> string \<Rightarrow> dashboard \<Rightarrow> dashboard" where
  "performMapSearch net query s =
     (case getMapData net State s of
        (Inl e, s1) \<Rightarrow> mapSearch_failed s1
      | (Inr stateData, s1) \<Rightarrow>
          (case getMapData net District s1 of
             (Inl e, s2) \<Rightarrow> mapSearch_failed s2
           | (Inr districtData, s2) \<Rightarrow>
               (case js_find (name_includes ''state'' query) stateData of
                  Inl e \<Rightarrow> mapSearch_failed s2
                | Inr stateMatch \<Rightarrow>
                    (case js_filter (district_matches query) districtData of
                       Inl e \<Rightarrow> mapSearch_failed s2
                     | Inr districtMatches \<Rightarrow>
                         (case showSearchSuggestions query stateData districtMatches s2 of
                            (Inl e, s3) \<Rightarrow> mapSearch_failed s3
                          | (Inr u, s3) \<Rightarrow> s3)))))"

text \<open>The \<^verbatim>\<open>input\<close> listener of the search box, from \<^verbatim>\<open>setupEventListeners\<close>:
  \<^verbatim>\<open>const query = e.target.value.toLowerCase(); if (query.length > 2) this.performMapSearch(query)\<close>.\<close>

definition mapSearch_input :: "network \<Rightarrow> string \<Rightarrow> dashboard \<Rightarrow> dashboard" where
  "mapSearch_input net v s =
     (let query = toLowerCase v in
      if length query > 2 then performMapSearch net query s else s)"


section \<open>Overlapping transitions\<close>

text \<open>
  JavaScript runs one stretch of code at a time: an \<^verbatim>\<open>async\<close> method runs until its next
  \<^verbatim>\<open>await\<close>, and what follows the \<^verbatim>\<open>await\<close> runs later, after whatever else was started
  in between. Two calls of \<^verbatim>\<open>handleStateChange\<close> that overlap are two values of type
  \<open>stretches\<close>, resumed in the order the list of booleans gives (\<open>True\<close>: the first call
  runs its next stretch); when the list ends, the first call is run to its end before
  the second. Every order in which the replies can come back is one such list.
\<close>

fun interleave :: "bool list \<Rightarrow> stretches \<Rightarrow> stretches \<Rightarrow> dashboard \<Rightarrow> dashboard" where
  "interleave order Done ys s = run_all ys s"
| "interleave order xs Done s = run_all xs s"
| "interleave [] xs ys s = run_all ys (run_all xs s)"
| "interleave (True # order) xs ys s = (case advance xs s of (s1, xs1) \<Rightarrow> interleave order xs1 ys s1)"
| "interleave (False # order) xs ys s = (case advance ys s of (s1, ys1) \<Rightarrow> interleave order xs ys1 s1)"

text \<open>
  \<^verbatim>\<open>drillDownToState(x); drillDownToState(y)\<close> with nothing in between: the first stretch
  of the first call, then the first stretch of the second, then the rest of both in
  any order.
\<close>

definition drillDown_twice :: "network \<Rightarrow> bool list \<Rightarrow> string \<Rightarrow> string \<Rightarrow> dashboard \<Rightarrow> dashboard" where
  "drillDown_twice net order x y s =
     (case hsc_stretches net x s of
        (s1, xs) \<Rightarrow>
          (case hsc_stretches net y s1 of
             (s2, ys) \<Rightarrow> interleave order xs ys s2))"

text \<open>The invariant of the navigation state: the map shows districts exactly when a
  region other than National is selected.\<close>

definition nav_invariant :: "dashboard \<Rightarrow> bool" where
  "nav_invariant s = ((currentMapLevel s = District) = (currentState s \<noteq> ''National''))"

text \<open>The navigation state of the spec: persona, selected region, map level.\<close>

definition nav :: "dashboard \<Rightarrow> string \<times> string \<times> level" where
  "nav s = (persona s, currentState s, currentMapLevel s)"





text \<open>What a GET of an endpoint brings: the cached document while it is fresh, else
  what the code makes of the reply to the request it sends.\<close>

definition answer :: "network \<Rightarrow> string \<Rightarrow> dashboard \<Rightarrow> error + json" where
  "answer net endpoint s =
     (case cached s (API_BASE_URL @ endpoint @ ''{}'') of
        Some data \<Rightarrow> Inr data
      | None \<Rightarrow> reply_data (snd (net (length (requests s)) (API_BASE_URL @ endpoint))))"

section \<open>Example pages and networks\<close>

text \<open>The dashboard as its constructor leaves it, on a page that has every element the
  code looks for.\<close>

definition page0 :: dashboard where
  "page0 = \<lparr>currentState = ''National'', currentMapLevel = State, geoState = None, geoDistrict = None,
     cache = [], clock = 0, requests = [], calls = [], persona = [], trendMetric = Some ''aghi'',
     trendDistrict = Some [], districtOptions = [], rankingType = ''top'',
     hasStatusTag = True, hasBarTop = True, hasSlaBars = True, hasCircles = True, hasWatchlist = True,
     breadcrumb = [''India''], compStateName = ''National'', overviewPanel = Static, mapPanel = Static,
     rankingList = Static, trendGrid = Static, alertList = Static, slaBars = Static,
     failureCharts = Static, operatorWatchlist = Static, toasts = [], console = [],
     suggestions = None\<rparr>"

text \<open>A state administrator looking at Maharashtra.\<close>

definition page_mh :: dashboard where
  "page_mh = page0\<lparr>currentState := ''Maharashtra'', currentMapLevel := District, persona := ''state''\<rparr>"



text \<open>A page that fetched the overview at time 0 and has been open for 400 seconds.\<close>

definition page_stale :: dashboard where
  "page_stale = page0\<lparr>
     cache := [(API_BASE_URL @ ''/overview'' @ ''{}'', (JObj [(''national_aghi'', JNum 61)], 0))],
     clock := 400000\<rparr>"

text \<open>No request gets through.\<close>

definition offline :: network where
  "offline n url = (0, Rejected)"

text \<open>A backend that answers every request after 40 ms with a document of the shape
  the dashboard reads; the geometry files are served with the page.\<close>

definition backend_doc :: "string \<Rightarrow> json" where
  "backend_doc url =
     (if js_includes url ''level=state'' then
        JArr [JObj [(''state'', JStr ''Maharashtra''), (''aghi_score'', JNum 74)],
              JObj [(''state'', JStr ''Bihar''), (''aghi_score'', JNum 58)]]
      else if js_includes url ''level=district'' then
        JArr [JObj [(''state'', JStr ''Maharashtra''), (''district'', JStr ''Pune''), (''aghi_score'', JNum 81)],
              JObj [(''state'', JStr ''Bihar''), (''district'', JStr ''Patna''), (''aghi_score'', JNum 52)]]
      else if js_includes url ''/rankings'' then
        JObj [(''top_performers'', JArr [JObj [(''district'', JStr ''Pune''), (''aghi_score'', JNum 81)]]),
              (''bottom_performers'', JArr [])]
      else if js_includes url ''/overview'' then
        JObj [(''national_aghi'', JNum 66), (''monthly_change'', JNum 1), (''top_state'', JStr ''Maharashtra''),
              (''top_score'', JNum 74), (''top_pillar'', JStr ''inclusion'')]
      else if js_includes url ''/trends'' then
        JArr [JObj [(''month'', JStr ''2025-01''), (''aghi_score'', JNum 65)],
              JObj [(''month'', JStr ''2025-02''), (''aghi_score'', JNum 66)]]
      else if js_includes url ''/anomalies'' then
        JObj [(''priorities'',
               JArr [JObj [(''district'', JStr ''Patna''), (''state'', JStr ''Bihar''), (''aghi_score'', JNum 52),
                           (''alert_message'', JStr ''Low update rate''),
                           (''recommended_action'', JStr ''Audit enrolment centres'')]])]
      else if js_includes url ''/operations'' then
        JObj [(''sla'', JObj [(''enrollment_tat'', JNum 90), (''update_tat'', JNum 85), (''grievance_tat'', JNum 70)]),
              (''failures'', JObj [(''bio_mismatch'', JNum 3), (''doc_quality'', JNum 2), (''tech_error'', JNum 1)]),
              (''watchlist'', JArr [JObj [(''name'', JStr ''OP-17''), (''failures'', JNum 12), (''risk'', JNum 60),
                                          (''status'', JStr ''Under review'')]])]
      else if js_includes url ''geojson'' then
        JObj [(''type'', JStr ''FeatureCollection''), (''features'', JArr [])]
      else JObj [(''status'', JStr ''success'')])"

definition backend :: network where
  "backend n url = (40, Response True (Some (backend_doc url)))"

text \<open>The same backend on a deployment that does not ship the geometry files.\<close>

definition local_missing :: network where
  "local_missing n url =
     (if startsWith url ''data/'' then (5, Response False None) else backend n url)"

text \<open>The same backend with the rankings endpoint answering 500.\<close>

definition rankings_down :: network where
  "rankings_down n url =
     (if js_includes url ''/rankings'' then (40, Response False None) else backend n url)"


section \<open>The response cache\<close>

lemma cached_cong:
  "cache s' = cache s \<Longrightarrow> clock s' = clock s \<Longrightarrow> cached s' k = cached s k"
  by (simp add: cached_def split: option.splits)

lemma cached_Some_iff:
  "cached s k = Some d \<longleftrightarrow>
     (\<exists>ts. map_of (cache s) k = Some (d, ts) \<and> int (clock s) - int ts < cacheDuration)"
  by (auto simp: cached_def split: option.splits)

lemma fetch_eq:
  "net (length (requests s)) url = (delay, r) \<Longrightarrow>
   fetch net url s = (r, s\<lparr>clock := clock s + delay, requests := requests s @ [url]\<rparr>)"
  by (simp add: fetch_def)


text \<open>Without a fresh entry the request is sent, and the reply decides.\<close>

lemma fetchAPI_miss:
  assumes "cached s (API_BASE_URL @ endpoint @ options) = None"
      and "net (length (requests s)) (API_BASE_URL @ endpoint) = (delay, r)"
  shows "fetchAPI net endpoint options s =
     (let s1 = s\<lparr>calls := calls s @ [endpoint], requests := requests s @ [API_BASE_URL @ endpoint],
                  clock := clock s + delay\<rparr> in
      case reply_data r of
        Inl e \<Rightarrow> (Inl e, console_error (''Error fetching '' @ endpoint @ '':'') s1)
      | Inr data \<Rightarrow>
          (Inr data, s1\<lparr>cache := AList.update (API_BASE_URL @ endpoint @ options)
                                    (data, clock s + delay) (cache s)\<rparr>))"
  using assms
  by (simp add: fetchAPI_def fetchAPI_begin_def ticket_for_def fetchAPI_end_def Let_def max_def
           split: sum.splits)

text \<open>
  C10. When \<^verbatim>\<open>fetchAPI\<close> has no fresh entry for the request and the fetch it then makes
  rejects, answers with a status that is not \<^verbatim>\<open>ok\<close>, or answers with a body that is not
  JSON, the call ends in the error (it is rethrown to the caller) and the cache is
  exactly what it was before the call; the one request was sent.
\<close>

theorem fetchAPI_error_atomic:
  assumes "cached s (API_BASE_URL @ endpoint @ options) = None"
      and "net (length (requests s)) (API_BASE_URL @ endpoint) = (delay, r)"
      and "r = Rejected \<or> r = Response False body \<or> r = Response True None"
  shows "fst (fetchAPI net endpoint options s) =
           Inl (if r = Rejected then NetworkError
                else if r = Response True None then SyntaxError else ApiError)
       \<and> cache (snd (fetchAPI net endpoint options s)) = cache s
       \<and> requests (snd (fetchAPI net endpoint options s)) = requests s @ [API_BASE_URL @ endpoint]"
proof -
  note eq = fetchAPI_miss [of s endpoint options net delay r, OF assms(1,2)]
  from assms(3) show ?thesis
    by (auto simp: eq console_error_def Let_def)
qed

text \<open>The same on a page whose cache holds an expired overview, with the network down:
  the expired entry is still there after the failed call.\<close>

theorem fetchAPI_error_atomic_witness:
  "cached page_stale (API_BASE_URL @ ''/overview'' @ ''{}'') = None
   \<and> offline (length (requests page_stale)) (API_BASE_URL @ ''/overview'') = (0, Rejected)
   \<and> fst (fetchAPI offline ''/overview'' ''{}'' page_stale) = Inl NetworkError
   \<and> cache (snd (fetchAPI offline ''/overview'' ''{}'' page_stale)) =
       [(API_BASE_URL @ ''/overview'' @ ''{}'', (JObj [(''national_aghi'', JNum 61)], 0))]
   \<and> requests (snd (fetchAPI offline ''/overview'' ''{}'' page_stale)) = [API_BASE_URL @ ''/overview'']"
proof -
  have c: "cached page_stale (API_BASE_URL @ ''/overview'' @ ''{}'') = None"
    by (simp add: cached_def page_stale_def page0_def cacheDuration_def)
  have n: "offline (length (requests page_stale)) (API_BASE_URL @ ''/overview'') = (0, Rejected)"
    by (simp add: offline_def)
  have "Rejected = Rejected \<or> Rejected = Response False None \<or> Rejected = Response True None"
    by simp
  from fetchAPI_error_atomic [of page_stale "''/overview''" "''{}''" offline 0 Rejected None, OF c n this]
  have "fst (fetchAPI offline ''/overview'' ''{}'' page_stale) = Inl NetworkError
      \<and> cache (snd (fetchAPI offline ''/overview'' ''{}'' page_stale)) = cache page_stale
      \<and> requests (snd (fetchAPI offline ''/overview'' ''{}'' page_stale)) =
          requests page_stale @ [API_BASE_URL @ ''/overview'']"
    by simp
  with c n show ?thesis by (simp add: page_stale_def page0_def)
qed


section \<open>What each step writes\<close>

text \<open>
  Every function of the model writes a few fields of the page and leaves the others as
  they are. The lemmas of this section list, function by function, the fields that are
  left alone; the navigation fields, the selectors and the flags of the page are among
  them for every load.
\<close>

lemma frame_console_error [simp]:
  "currentState (console_error m s) = currentState s"
  "currentMapLevel (console_error m s) = currentMapLevel s"
  "geoState (console_error m s) = geoState s"
  "geoDistrict (console_error m s) = geoDistrict s"
  "cache (console_error m s) = cache s"
  "clock (console_error m s) = clock s"
  "requests (console_error m s) = requests s"
  "calls (console_error m s) = calls s"
  "persona (console_error m s) = persona s"
  "trendMetric (console_error m s) = trendMetric s"
  "trendDistrict (console_error m s) = trendDistrict s"
  "districtOptions (console_error m s) = districtOptions s"
  "rankingType (console_error m s) = rankingType s"
  "hasStatusTag (console_error m s) = hasStatusTag s"
  "hasBarTop (console_error m s) = hasBarTop s"
  "hasSlaBars (console_error m s) = hasSlaBars s"
  "hasCircles (console_error m s) = hasCircles s"
  "hasWatchlist (console_error m s) = hasWatchlist s"
  "breadcrumb (console_error m s) = breadcrumb s"
  "compStateName (console_error m s) = compStateName s"
  "overviewPanel (console_error m s) = overviewPanel s"
  "mapPanel (console_error m s) = mapPanel s"
  "rankingList (console_error m s) = rankingList s"
  "trendGrid (console_error m s) = trendGrid s"
  "alertList (console_error m s) = alertList s"
  "slaBars (console_error m s) = slaBars s"
  "failureCharts (console_error m s) = failureCharts s"
  "operatorWatchlist (console_error m s) = operatorWatchlist s"
  "toasts (console_error m s) = toasts s"
  "suggestions (console_error m s) = suggestions s"
  by (simp_all add: console_error_def)

lemma frame_showMessage [simp]:
  "currentState (showMessage m k s) = currentState s"
  "currentMapLevel (showMessage m k s) = currentMapLevel s"
  "geoState (showMessage m k s) = geoState s"
  "geoDistrict (showMessage m k s) = geoDistrict s"
  "cache (showMessage m k s) = cache s"
  "clock (showMessage m k s) = clock s"
  "requests (showMessage m k s) = requests s"
  "calls (showMessage m k s) = calls s"
  "persona (showMessage m k s) = persona s"
  "trendMetric (showMessage m k s) = trendMetric s"
  "trendDistrict (showMessage m k s) = trendDistrict s"
  "districtOptions (showMessage m k s) = districtOptions s"
  "rankingType (showMessage m k s) = rankingType s"
  "hasStatusTag (showMessage m k s) = hasStatusTag s"
  "hasBarTop (showMessage m k s) = hasBarTop s"
  "hasSlaBars (showMessage m k s) = hasSlaBars s"
  "hasCircles (showMessage m k s) = hasCircles s"
  "hasWatchlist (showMessage m k s) = hasWatchlist s"
  "breadcrumb (showMessage m k s) = breadcrumb s"
  "compStateName (showMessage m k s) = compStateName s"
  "overviewPanel (showMessage m k s) = overviewPanel s"
  "mapPanel (showMessage m k s) = mapPanel s"
  "rankingList (showMessage m k s) = rankingList s"
  "trendGrid (showMessage m k s) = trendGrid s"
  "alertList (showMessage m k s) = alertList s"
  "slaBars (showMessage m k s) = slaBars s"
  "failureCharts (showMessage m k s) = failureCharts s"
  "operatorWatchlist (showMessage m k s) = operatorWatchlist s"
  "console (showMessage m k s) = console s"
  "suggestions (showMessage m k s) = suggestions s"
  by (simp_all add: showMessage_def)

lemma frame_showError [simp]:
  "currentState (showError m s) = currentState s"
  "currentMapLevel (showError m s) = currentMapLevel s"
  "geoState (showError m s) = geoState s"
  "geoDistrict (showError m s) = geoDistrict s"
  "cache (showError m s) = cache s"
  "clock (showError m s) = clock s"
  "requests (showError m s) = requests s"
  "calls (showError m s) = calls s"
  "persona (showError m s) = persona s"
  "trendMetric (showError m s) = trendMetric s"
  "trendDistrict (showError m s) = trendDistrict s"
  "districtOptions (showError m s) = districtOptions s"
  "rankingType (showError m s) = rankingType s"
  "hasStatusTag (showError m s) = hasStatusTag s"
  "hasBarTop (showError m s) = hasBarTop s"
  "hasSlaBars (showError m s) = hasSlaBars s"
  "hasCircles (showError m s) = hasCircles s"
  "hasWatchlist (showError m s) = hasWatchlist s"
  "breadcrumb (showError m s) = breadcrumb s"
  "compStateName (showError m s) = compStateName s"
  "overviewPanel (showError m s) = overviewPanel s"
  "mapPanel (showError m s) = mapPanel s"
  "rankingList (showError m s) = rankingList s"
  "trendGrid (showError m s) = trendGrid s"
  "alertList (showError m s) = alertList s"
  "slaBars (showError m s) = slaBars s"
  "failureCharts (showError m s) = failureCharts s"
  "operatorWatchlist (showError m s) = operatorWatchlist s"
  "console (showError m s) = console s"
  "suggestions (showError m s) = suggestions s"
  by (simp_all add: showError_def)

lemma frame_set_geoData [simp]:
  "currentState (set_geoData lvl g s) = currentState s"
  "currentMapLevel (set_geoData lvl g s) = currentMapLevel s"
  "cache (set_geoData lvl g s) = cache s"
  "clock (set_geoData lvl g s) = clock s"
  "requests (set_geoData lvl g s) = requests s"
  "calls (set_geoData lvl g s) = calls s"
  "persona (set_geoData lvl g s) = persona s"
  "trendMetric (set_geoData lvl g s) = trendMetric s"
  "trendDistrict (set_geoData lvl g s) = trendDistrict s"
  "districtOptions (set_geoData lvl g s) = districtOptions s"
  "rankingType (set_geoData lvl g s) = rankingType s"
  "hasStatusTag (set_geoData lvl g s) = hasStatusTag s"
  "hasBarTop (set_geoData lvl g s) = hasBarTop s"
  "hasSlaBars (set_geoData lvl g s) = hasSlaBars s"
  "hasCircles (set_geoData lvl g s) = hasCircles s"
  "hasWatchlist (set_geoData lvl g s) = hasWatchlist s"
  "breadcrumb (set_geoData lvl g s) = breadcrumb s"
  "compStateName (set_geoData lvl g s) = compStateName s"
  "overviewPanel (set_geoData lvl g s) = overviewPanel s"
  "mapPanel (set_geoData lvl g s) = mapPanel s"
  "rankingList (set_geoData lvl g s) = rankingList s"
  "trendGrid (set_geoData lvl g s) = trendGrid s"
  "alertList (set_geoData lvl g s) = alertList s"
  "slaBars (set_geoData lvl g s) = slaBars s"
  "failureCharts (set_geoData lvl g s) = failureCharts s"
  "operatorWatchlist (set_geoData lvl g s) = operatorWatchlist s"
  "toasts (set_geoData lvl g s) = toasts s"
  "console (set_geoData lvl g s) = console s"
  "suggestions (set_geoData lvl g s) = suggestions s"
  by (cases lvl; simp)+

lemma frame_fetch [simp]:
  "currentState (snd (fetch net url s)) = currentState s"
  "currentMapLevel (snd (fetch net url s)) = currentMapLevel s"
  "geoState (snd (fetch net url s)) = geoState s"
  "geoDistrict (snd (fetch net url s)) = geoDistrict s"
  "cache (snd (fetch net url s)) = cache s"
  "calls (snd (fetch net url s)) = calls s"
  "persona (snd (fetch net url s)) = persona s"
  "trendMetric (snd (fetch net url s)) = trendMetric s"
  "trendDistrict (snd (fetch net url s)) = trendDistrict s"
  "districtOptions (snd (fetch net url s)) = districtOptions s"
  "rankingType (snd (fetch net url s)) = rankingType s"
  "hasStatusTag (snd (fetch net url s)) = hasStatusTag s"
  "hasBarTop (snd (fetch net url s)) = hasBarTop s"
  "hasSlaBars (snd (fetch net url s)) = hasSlaBars s"
  "hasCircles (snd (fetch net url s)) = hasCircles s"
  "hasWatchlist (snd (fetch net url s)) = hasWatchlist s"
  "breadcrumb (snd (fetch net url s)) = breadcrumb s"
  "compStateName (snd (fetch net url s)) = compStateName s"
  "overviewPanel (snd (fetch net url s)) = overviewPanel s"
  "mapPanel (snd (fetch net url s)) = mapPanel s"
  "rankingList (snd (fetch net url s)) = rankingList s"
  "trendGrid (snd (fetch net url s)) = trendGrid s"
  "alertList (snd (fetch net url s)) = alertList s"
  "slaBars (snd (fetch net url s)) = slaBars s"
  "failureCharts (snd (fetch net url s)) = failureCharts s"
  "operatorWatchlist (snd (fetch net url s)) = operatorWatchlist s"
  "toasts (snd (fetch net url s)) = toasts s"
  "console (snd (fetch net url s)) = console s"
  "suggestions (snd (fetch net url s)) = suggestions s"
  by (simp_all add: fetch_def case_prod_beta)

lemma frame_api_call [simp]:
  "currentState (snd (api_call endpoint s)) = currentState s"
  "currentMapLevel (snd (api_call endpoint s)) = currentMapLevel s"
  "geoState (snd (api_call endpoint s)) = geoState s"
  "geoDistrict (snd (api_call endpoint s)) = geoDistrict s"
  "cache (snd (api_call endpoint s)) = cache s"
  "clock (snd (api_call endpoint s)) = clock s"
  "persona (snd (api_call endpoint s)) = persona s"
  "trendMetric (snd (api_call endpoint s)) = trendMetric s"
  "trendDistrict (snd (api_call endpoint s)) = trendDistrict s"
  "districtOptions (snd (api_call endpoint s)) = districtOptions s"
  "rankingType (snd (api_call endpoint s)) = rankingType s"
  "hasStatusTag (snd (api_call endpoint s)) = hasStatusTag s"
  "hasBarTop (snd (api_call endpoint s)) = hasBarTop s"
  "hasSlaBars (snd (api_call endpoint s)) = hasSlaBars s"
  "hasCircles (snd (api_call endpoint s)) = hasCircles s"
  "hasWatchlist (snd (api_call endpoint s)) = hasWatchlist s"
  "breadcrumb (snd (api_call endpoint s)) = breadcrumb s"
  "compStateName (snd (api_call endpoint s)) = compStateName s"
  "overviewPanel (snd (api_call endpoint s)) = overviewPanel s"
  "mapPanel (snd (api_call endpoint s)) = mapPanel s"
  "rankingList (snd (api_call endpoint s)) = rankingList s"
  "trendGrid (snd (api_call endpoint s)) = trendGrid s"
  "alertList (snd (api_call endpoint s)) = alertList s"
  "slaBars (snd (api_call endpoint s)) = slaBars s"
  "failureCharts (snd (api_call endpoint s)) = failureCharts s"
  "operatorWatchlist (snd (api_call endpoint s)) = operatorWatchlist s"
  "toasts (snd (api_call endpoint s)) = toasts s"
  "console (snd (api_call endpoint s)) = console s"
  "suggestions (snd (api_call endpoint s)) = suggestions s"
  by (simp_all add: api_call_def fetchAPI_begin_def Let_def case_prod_beta split: ticket.splits)

lemma frame_api_reply [simp]:
  "currentState (snd (api_reply net p s)) = currentState s"
  "currentMapLevel (snd (api_reply net p s)) = currentMapLevel s"
  "geoState (snd (api_reply net p s)) = geoState s"
  "geoDistrict (snd (api_reply net p s)) = geoDistrict s"
  "requests (snd (api_reply net p s)) = requests s"
  "calls (snd (api_reply net p s)) = calls s"
  "persona (snd (api_reply net p s)) = persona s"
  "trendMetric (snd (api_reply net p s)) = trendMetric s"
  "trendDistrict (snd (api_reply net p s)) = trendDistrict s"
  "districtOptions (snd (api_reply net p s)) = districtOptions s"
  "rankingType (snd (api_reply net p s)) = rankingType s"
  "hasStatusTag (snd (api_reply net p s)) = hasStatusTag s"
  "hasBarTop (snd (api_reply net p s)) = hasBarTop s"
  "hasSlaBars (snd (api_reply net p s)) = hasSlaBars s"
  "hasCircles (snd (api_reply net p s)) = hasCircles s"
  "hasWatchlist (snd (api_reply net p s)) = hasWatchlist s"
  "breadcrumb (snd (api_reply net p s)) = breadcrumb s"
  "compStateName (snd (api_reply net p s)) = compStateName s"
  "overviewPanel (snd (api_reply net p s)) = overviewPanel s"
  "mapPanel (snd (api_reply net p s)) = mapPanel s"
  "rankingList (snd (api_reply net p s)) = rankingList s"
  "trendGrid (snd (api_reply net p s)) = trendGrid s"
  "alertList (snd (api_reply net p s)) = alertList s"
  "slaBars (snd (api_reply net p s)) = slaBars s"
  "failureCharts (snd (api_reply net p s)) = failureCharts s"
  "operatorWatchlist (snd (api_reply net p s)) = operatorWatchlist s"
  "toasts (snd (api_reply net p s)) = toasts s"
  "suggestions (snd (api_reply net p s)) = suggestions s"
  by (simp_all add: api_reply_def fetchAPI_end_def Let_def case_prod_beta split: pending.splits ticket.splits sum.splits)

lemma fst_api_call [simp]: "fst (api_call endpoint s) = Pending endpoint (ticket_for s endpoint ''{}'')"
  by (simp add: api_call_def fetchAPI_begin_def Let_def case_prod_beta split: ticket.splits)

lemma fst_api_reply [simp]: "fst (api_reply net p s) = reply_of net p"
  by (simp add: api_reply_def reply_of_def fetchAPI_end_def Let_def case_prod_beta
           split: pending.splits ticket.splits sum.splits)

lemma calls_api_call [simp]: "calls (snd (api_call endpoint s)) = calls s @ [endpoint]"
  by (simp add: api_call_def fetchAPI_begin_def Let_def case_prod_beta split: ticket.splits)


lemma ticket_for_cong:
  "cache s' = cache s \<Longrightarrow> clock s' = clock s \<Longrightarrow> requests s' = requests s \<Longrightarrow>
   ticket_for s' endpoint options = ticket_for s endpoint options"
  by (simp add: ticket_for_def Let_def cached_cong [of s' s] split: option.splits)


text \<open>The reply to a call is what the cache or the network had for it when it was made.\<close>

lemma reply_of_ticket_for [simp]:
  "reply_of net (Pending endpoint (ticket_for s endpoint ''{}'')) = answer net endpoint s"
  by (simp add: reply_of_def ticket_for_def answer_def Let_def split: option.splits)


lemma frame_loadGeoJSON [simp]:
  "currentState (snd (loadGeoJSON net lvl s)) = currentState s"
  "currentMapLevel (snd (loadGeoJSON net lvl s)) = currentMapLevel s"
  "cache (snd (loadGeoJSON net lvl s)) = cache s"
  "calls (snd (loadGeoJSON net lvl s)) = calls s"
  "persona (snd (loadGeoJSON net lvl s)) = persona s"
  "trendMetric (snd (loadGeoJSON net lvl s)) = trendMetric s"
  "trendDistrict (snd (loadGeoJSON net lvl s)) = trendDistrict s"
  "districtOptions (snd (loadGeoJSON net lvl s)) = districtOptions s"
  "rankingType (snd (loadGeoJSON net lvl s)) = rankingType s"
  "hasStatusTag (snd (loadGeoJSON net lvl s)) = hasStatusTag s"
  "hasBarTop (snd (loadGeoJSON net lvl s)) = hasBarTop s"
  "hasSlaBars (snd (loadGeoJSON net lvl s)) = hasSlaBars s"
  "hasCircles (snd (loadGeoJSON net lvl s)) = hasCircles s"
  "hasWatchlist (snd (loadGeoJSON net lvl s)) = hasWatchlist s"
  "breadcrumb (snd (loadGeoJSON net lvl s)) = breadcrumb s"
  "compStateName (snd (loadGeoJSON net lvl s)) = compStateName s"
  "overviewPanel (snd (loadGeoJSON net lvl s)) = overviewPanel s"
  "mapPanel (snd (loadGeoJSON net lvl s)) = mapPanel s"
  "rankingList (snd (loadGeoJSON net lvl s)) = rankingList s"
  "trendGrid (snd (loadGeoJSON net lvl s)) = trendGrid s"
  "alertList (snd (loadGeoJSON net lvl s)) = alertList s"
  "slaBars (snd (loadGeoJSON net lvl s)) = slaBars s"
  "failureCharts (snd (loadGeoJSON net lvl s)) = failureCharts s"
  "operatorWatchlist (snd (loadGeoJSON net lvl s)) = operatorWatchlist s"
  "toasts (snd (loadGeoJSON net lvl s)) = toasts s"
  "console (snd (loadGeoJSON net lvl s)) = console s"
  "suggestions (snd (loadGeoJSON net lvl s)) = suggestions s"
  by (simp_all add: loadGeoJSON_def case_prod_beta split: fetch_result.splits option.splits bool.splits)

lemma frame_loadMap_failed [simp]:
  "currentState (loadMap_failed s) = currentState s"
  "currentMapLevel (loadMap_failed s) = currentMapLevel s"
  "geoState (loadMap_failed s) = geoState s"
  "geoDistrict (loadMap_failed s) = geoDistrict s"
  "cache (loadMap_failed s) = cache s"
  "clock (loadMap_failed s) = clock s"
  "requests (loadMap_failed s) = requests s"
  "calls (loadMap_failed s) = calls s"
  "persona (loadMap_failed s) = persona s"
  "trendMetric (loadMap_failed s) = trendMetric s"
  "trendDistrict (loadMap_failed s) = trendDistrict s"
  "districtOptions (loadMap_failed s) = districtOptions s"
  "rankingType (loadMap_failed s) = rankingType s"
  "hasStatusTag (loadMap_failed s) = hasStatusTag s"
  "hasBarTop (loadMap_failed s) = hasBarTop s"
  "hasSlaBars (loadMap_failed s) = hasSlaBars s"
  "hasCircles (loadMap_failed s) = hasCircles s"
  "hasWatchlist (loadMap_failed s) = hasWatchlist s"
  "breadcrumb (loadMap_failed s) = breadcrumb s"
  "compStateName (loadMap_failed s) = compStateName s"
  "overviewPanel (loadMap_failed s) = overviewPanel s"
  "mapPanel (loadMap_failed s) = mapPanel s"
  "rankingList (loadMap_failed s) = rankingList s"
  "trendGrid (loadMap_failed s) = trendGrid s"
  "alertList (loadMap_failed s) = alertList s"
  "slaBars (loadMap_failed s) = slaBars s"
  "failureCharts (loadMap_failed s) = failureCharts s"
  "operatorWatchlist (loadMap_failed s) = operatorWatchlist s"
  "suggestions (loadMap_failed s) = suggestions s"
  by (simp_all add: loadMap_failed_def)

lemma frame_loadMap_begin [simp]:
  "currentState (snd (loadMap_begin stateFilter s)) = currentState s"
  "currentMapLevel (snd (loadMap_begin stateFilter s)) = currentMapLevel s"
  "geoState (snd (loadMap_begin stateFilter s)) = geoState s"
  "geoDistrict (snd (loadMap_begin stateFilter s)) = geoDistrict s"
  "cache (snd (loadMap_begin stateFilter s)) = cache s"
  "clock (snd (loadMap_begin stateFilter s)) = clock s"
  "persona (snd (loadMap_begin stateFilter s)) = persona s"
  "trendMetric (snd (loadMap_begin stateFilter s)) = trendMetric s"
  "trendDistrict (snd (loadMap_begin stateFilter s)) = trendDistrict s"
  "districtOptions (snd (loadMap_begin stateFilter s)) = districtOptions s"
  "rankingType (snd (loadMap_begin stateFilter s)) = rankingType s"
  "hasStatusTag (snd (loadMap_begin stateFilter s)) = hasStatusTag s"
  "hasBarTop (snd (loadMap_begin stateFilter s)) = hasBarTop s"
  "hasSlaBars (snd (loadMap_begin stateFilter s)) = hasSlaBars s"
  "hasCircles (snd (loadMap_begin stateFilter s)) = hasCircles s"
  "hasWatchlist (snd (loadMap_begin stateFilter s)) = hasWatchlist s"
  "breadcrumb (snd (loadMap_begin stateFilter s)) = breadcrumb s"
  "compStateName (snd (loadMap_begin stateFilter s)) = compStateName s"
  "overviewPanel (snd (loadMap_begin stateFilter s)) = overviewPanel s"
  "mapPanel (snd (loadMap_begin stateFilter s)) = mapPanel s"
  "rankingList (snd (loadMap_begin stateFilter s)) = rankingList s"
  "trendGrid (snd (loadMap_begin stateFilter s)) = trendGrid s"
  "alertList (snd (loadMap_begin stateFilter s)) = alertList s"
  "slaBars (snd (loadMap_begin stateFilter s)) = slaBars s"
  "failureCharts (snd (loadMap_begin stateFilter s)) = failureCharts s"
  "operatorWatchlist (snd (loadMap_begin stateFilter s)) = operatorWatchlist s"
  "toasts (snd (loadMap_begin stateFilter s)) = toasts s"
  "console (snd (loadMap_begin stateFilter s)) = console s"
  "suggestions (snd (loadMap_begin stateFilter s)) = suggestions s"
  by (simp_all add: loadMap_begin_def Let_def case_prod_beta)

lemma frame_loadMap_end [simp]:
  "currentState (loadMap_end net stateFilter started s) = currentState s"
  "currentMapLevel (loadMap_end net stateFilter started s) = currentMapLevel s"
  "calls (loadMap_end net stateFilter started s) = calls s"
  "persona (loadMap_end net stateFilter started s) = persona s"
  "trendMetric (loadMap_end net stateFilter started s) = trendMetric s"
  "trendDistrict (loadMap_end net stateFilter started s) = trendDistrict s"
  "districtOptions (loadMap_end net stateFilter started s) = districtOptions s"
  "rankingType (loadMap_end net stateFilter started s) = rankingType s"
  "hasStatusTag (loadMap_end net stateFilter started s) = hasStatusTag s"
  "hasBarTop (loadMap_end net stateFilter started s) = hasBarTop s"
  "hasSlaBars (loadMap_end net stateFilter started s) = hasSlaBars s"
  "hasCircles (loadMap_end net stateFilter started s) = hasCircles s"
  "hasWatchlist (loadMap_end net stateFilter started s) = hasWatchlist s"
  "breadcrumb (loadMap_end net stateFilter started s) = breadcrumb s"
  "compStateName (loadMap_end net stateFilter started s) = compStateName s"
  "overviewPanel (loadMap_end net stateFilter started s) = overviewPanel s"
  "rankingList (loadMap_end net stateFilter started s) = rankingList s"
  "trendGrid (loadMap_end net stateFilter started s) = trendGrid s"
  "alertList (loadMap_end net stateFilter started s) = alertList s"
  "slaBars (loadMap_end net stateFilter started s) = slaBars s"
  "failureCharts (loadMap_end net stateFilter started s) = failureCharts s"
  "operatorWatchlist (loadMap_end net stateFilter started s) = operatorWatchlist s"
  "suggestions (loadMap_end net stateFilter started s) = suggestions s"
  by (simp_all add: loadMap_end_def case_prod_beta split: sum.splits)

lemma frame_loadRankings_begin [simp]:
  "currentState (snd (loadRankings_begin s)) = currentState s"
  "currentMapLevel (snd (loadRankings_begin s)) = currentMapLevel s"
  "geoState (snd (loadRankings_begin s)) = geoState s"
  "geoDistrict (snd (loadRankings_begin s)) = geoDistrict s"
  "cache (snd (loadRankings_begin s)) = cache s"
  "clock (snd (loadRankings_begin s)) = clock s"
  "persona (snd (loadRankings_begin s)) = persona s"
  "trendMetric (snd (loadRankings_begin s)) = trendMetric s"
  "trendDistrict (snd (loadRankings_begin s)) = trendDistrict s"
  "districtOptions (snd (loadRankings_begin s)) = districtOptions s"
  "rankingType (snd (loadRankings_begin s)) = rankingType s"
  "hasStatusTag (snd (loadRankings_begin s)) = hasStatusTag s"
  "hasBarTop (snd (loadRankings_begin s)) = hasBarTop s"
  "hasSlaBars (snd (loadRankings_begin s)) = hasSlaBars s"
  "hasCircles (snd (loadRankings_begin s)) = hasCircles s"
  "hasWatchlist (snd (loadRankings_begin s)) = hasWatchlist s"
  "breadcrumb (snd (loadRankings_begin s)) = breadcrumb s"
  "compStateName (snd (loadRankings_begin s)) = compStateName s"
  "overviewPanel (snd (loadRankings_begin s)) = overviewPanel s"
  "mapPanel (snd (loadRankings_begin s)) = mapPanel s"
  "rankingList (snd (loadRankings_begin s)) = rankingList s"
  "trendGrid (snd (loadRankings_begin s)) = trendGrid s"
  "alertList (snd (loadRankings_begin s)) = alertList s"
  "slaBars (snd (loadRankings_begin s)) = slaBars s"
  "failureCharts (snd (loadRankings_begin s)) = failureCharts s"
  "operatorWatchlist (snd (loadRankings_begin s)) = operatorWatchlist s"
  "toasts (snd (loadRankings_begin s)) = toasts s"
  "console (snd (loadRankings_begin s)) = console s"
  "suggestions (snd (loadRankings_begin s)) = suggestions s"
  by (simp_all add: loadRankings_begin_def Let_def case_prod_beta)

lemma frame_loadRankings_end [simp]:
  "currentState (loadRankings_end net started s) = currentState s"
  "currentMapLevel (loadRankings_end net started s) = currentMapLevel s"
  "geoState (loadRankings_end net started s) = geoState s"
  "geoDistrict (loadRankings_end net started s) = geoDistrict s"
  "requests (loadRankings_end net started s) = requests s"
  "calls (loadRankings_end net started s) = calls s"
  "persona (loadRankings_end net started s) = persona s"
  "trendMetric (loadRankings_end net started s) = trendMetric s"
  "trendDistrict (loadRankings_end net started s) = trendDistrict s"
  "districtOptions (loadRankings_end net started s) = districtOptions s"
  "rankingType (loadRankings_end net started s) = rankingType s"
  "hasStatusTag (loadRankings_end net started s) = hasStatusTag s"
  "hasBarTop (loadRankings_end net started s) = hasBarTop s"
  "hasSlaBars (loadRankings_end net started s) = hasSlaBars s"
  "hasCircles (loadRankings_end net started s) = hasCircles s"
  "hasWatchlist (loadRankings_end net started s) = hasWatchlist s"
  "breadcrumb (loadRankings_end net started s) = breadcrumb s"
  "compStateName (loadRankings_end net started s) = compStateName s"
  "overviewPanel (loadRankings_end net started s) = overviewPanel s"
  "mapPanel (loadRankings_end net started s) = mapPanel s"
  "trendGrid (loadRankings_end net started s) = trendGrid s"
  "alertList (loadRankings_end net started s) = alertList s"
  "slaBars (loadRankings_end net started s) = slaBars s"
  "failureCharts (loadRankings_end net started s) = failureCharts s"
  "operatorWatchlist (loadRankings_end net started s) = operatorWatchlist s"
  "toasts (loadRankings_end net started s) = toasts s"
  "suggestions (loadRankings_end net started s) = suggestions s"
  by (simp_all add: loadRankings_end_def case_prod_beta split: sum.splits option.splits json.splits)

lemma frame_loadTrends_begin [simp]:
  "currentState (snd (loadTrends_begin s)) = currentState s"
  "currentMapLevel (snd (loadTrends_begin s)) = currentMapLevel s"
  "geoState (snd (loadTrends_begin s)) = geoState s"
  "geoDistrict (snd (loadTrends_begin s)) = geoDistrict s"
  "cache (snd (loadTrends_begin s)) = cache s"
  "clock (snd (loadTrends_begin s)) = clock s"
  "persona (snd (loadTrends_begin s)) = persona s"
  "trendMetric (snd (loadTrends_begin s)) = trendMetric s"
  "trendDistrict (snd (loadTrends_begin s)) = trendDistrict s"
  "districtOptions (snd (loadTrends_begin s)) = districtOptions s"
  "rankingType (snd (loadTrends_begin s)) = rankingType s"
  "hasStatusTag (snd (loadTrends_begin s)) = hasStatusTag s"
  "hasBarTop (snd (loadTrends_begin s)) = hasBarTop s"
  "hasSlaBars (snd (loadTrends_begin s)) = hasSlaBars s"
  "hasCircles (snd (loadTrends_begin s)) = hasCircles s"
  "hasWatchlist (snd (loadTrends_begin s)) = hasWatchlist s"
  "breadcrumb (snd (loadTrends_begin s)) = breadcrumb s"
  "compStateName (snd (loadTrends_begin s)) = compStateName s"
  "overviewPanel (snd (loadTrends_begin s)) = overviewPanel s"
  "mapPanel (snd (loadTrends_begin s)) = mapPanel s"
  "rankingList (snd (loadTrends_begin s)) = rankingList s"
  "trendGrid (snd (loadTrends_begin s)) = trendGrid s"
  "alertList (snd (loadTrends_begin s)) = alertList s"
  "slaBars (snd (loadTrends_begin s)) = slaBars s"
  "failureCharts (snd (loadTrends_begin s)) = failureCharts s"
  "operatorWatchlist (snd (loadTrends_begin s)) = operatorWatchlist s"
  "toasts (snd (loadTrends_begin s)) = toasts s"
  "console (snd (loadTrends_begin s)) = console s"
  "suggestions (snd (loadTrends_begin s)) = suggestions s"
  by (simp_all add: loadTrends_begin_def)

lemma frame_loadTrends_end [simp]:
  "currentState (loadTrends_end net p s) = currentState s"
  "currentMapLevel (loadTrends_end net p s) = currentMapLevel s"
  "geoState (loadTrends_end net p s) = geoState s"
  "geoDistrict (loadTrends_end net p s) = geoDistrict s"
  "requests (loadTrends_end net p s) = requests s"
  "calls (loadTrends_end net p s) = calls s"
  "persona (loadTrends_end net p s) = persona s"
  "trendMetric (loadTrends_end net p s) = trendMetric s"
  "trendDistrict (loadTrends_end net p s) = trendDistrict s"
  "districtOptions (loadTrends_end net p s) = districtOptions s"
  "rankingType (loadTrends_end net p s) = rankingType s"
  "hasStatusTag (loadTrends_end net p s) = hasStatusTag s"
  "hasBarTop (loadTrends_end net p s) = hasBarTop s"
  "hasSlaBars (loadTrends_end net p s) = hasSlaBars s"
  "hasCircles (loadTrends_end net p s) = hasCircles s"
  "hasWatchlist (loadTrends_end net p s) = hasWatchlist s"
  "breadcrumb (loadTrends_end net p s) = breadcrumb s"
  "compStateName (loadTrends_end net p s) = compStateName s"
  "overviewPanel (loadTrends_end net p s) = overviewPanel s"
  "mapPanel (loadTrends_end net p s) = mapPanel s"
  "rankingList (loadTrends_end net p s) = rankingList s"
  "alertList (loadTrends_end net p s) = alertList s"
  "slaBars (loadTrends_end net p s) = slaBars s"
  "failureCharts (loadTrends_end net p s) = failureCharts s"
  "operatorWatchlist (loadTrends_end net p s) = operatorWatchlist s"
  "toasts (loadTrends_end net p s) = toasts s"
  "suggestions (loadTrends_end net p s) = suggestions s"
  by (simp_all add: loadTrends_end_def case_prod_beta split: sum.splits)

lemma frame_loadAlerts_begin [simp]:
  "currentState (snd (loadAlerts_begin s)) = currentState s"
  "currentMapLevel (snd (loadAlerts_begin s)) = currentMapLevel s"
  "geoState (snd (loadAlerts_begin s)) = geoState s"
  "geoDistrict (snd (loadAlerts_begin s)) = geoDistrict s"
  "cache (snd (loadAlerts_begin s)) = cache s"
  "clock (snd (loadAlerts_begin s)) = clock s"
  "persona (snd (loadAlerts_begin s)) = persona s"
  "trendMetric (snd (loadAlerts_begin s)) = trendMetric s"
  "trendDistrict (snd (loadAlerts_begin s)) = trendDistrict s"
  "districtOptions (snd (loadAlerts_begin s)) = districtOptions s"
  "rankingType (snd (loadAlerts_begin s)) = rankingType s"
  "hasStatusTag (snd (loadAlerts_begin s)) = hasStatusTag s"
  "hasBarTop (snd (loadAlerts_begin s)) = hasBarTop s"
  "hasSlaBars (snd (loadAlerts_begin s)) = hasSlaBars s"
  "hasCircles (snd (loadAlerts_begin s)) = hasCircles s"
  "hasWatchlist (snd (loadAlerts_begin s)) = hasWatchlist s"
  "breadcrumb (snd (loadAlerts_begin s)) = breadcrumb s"
  "compStateName (snd (loadAlerts_begin s)) = compStateName s"
  "overviewPanel (snd (loadAlerts_begin s)) = overviewPanel s"
  "mapPanel (snd (loadAlerts_begin s)) = mapPanel s"
  "rankingList (snd (loadAlerts_begin s)) = rankingList s"
  "trendGrid (snd (loadAlerts_begin s)) = trendGrid s"
  "alertList (snd (loadAlerts_begin s)) = alertList s"
  "slaBars (snd (loadAlerts_begin s)) = slaBars s"
  "failureCharts (snd (loadAlerts_begin s)) = failureCharts s"
  "operatorWatchlist (snd (loadAlerts_begin s)) = operatorWatchlist s"
  "toasts (snd (loadAlerts_begin s)) = toasts s"
  "console (snd (loadAlerts_begin s)) = console s"
  "suggestions (snd (loadAlerts_begin s)) = suggestions s"
  by (simp_all add: loadAlerts_begin_def Let_def case_prod_beta)

lemma frame_loadAlerts_end [simp]:
  "currentState (loadAlerts_end net p s) = currentState s"
  "currentMapLevel (loadAlerts_end net p s) = currentMapLevel s"
  "geoState (loadAlerts_end net p s) = geoState s"
  "geoDistrict (loadAlerts_end net p s) = geoDistrict s"
  "requests (loadAlerts_end net p s) = requests s"
  "calls (loadAlerts_end net p s) = calls s"
  "persona (loadAlerts_end net p s) = persona s"
  "trendMetric (loadAlerts_end net p s) = trendMetric s"
  "trendDistrict (loadAlerts_end net p s) = trendDistrict s"
  "districtOptions (loadAlerts_end net p s) = districtOptions s"
  "rankingType (loadAlerts_end net p s) = rankingType s"
  "hasStatusTag (loadAlerts_end net p s) = hasStatusTag s"
  "hasBarTop (loadAlerts_end net p s) = hasBarTop s"
  "hasSlaBars (loadAlerts_end net p s) = hasSlaBars s"
  "hasCircles (loadAlerts_end net p s) = hasCircles s"
  "hasWatchlist (loadAlerts_end net p s) = hasWatchlist s"
  "breadcrumb (loadAlerts_end net p s) = breadcrumb s"
  "compStateName (loadAlerts_end net p s) = compStateName s"
  "overviewPanel (loadAlerts_end net p s) = overviewPanel s"
  "mapPanel (loadAlerts_end net p s) = mapPanel s"
  "rankingList (loadAlerts_end net p s) = rankingList s"
  "trendGrid (loadAlerts_end net p s) = trendGrid s"
  "slaBars (loadAlerts_end net p s) = slaBars s"
  "failureCharts (loadAlerts_end net p s) = failureCharts s"
  "operatorWatchlist (loadAlerts_end net p s) = operatorWatchlist s"
  "toasts (loadAlerts_end net p s) = toasts s"
  "suggestions (loadAlerts_end net p s) = suggestions s"
  by (simp_all add: loadAlerts_end_def Let_def case_prod_beta split: sum.splits option.splits json.splits)

lemma frame_drawSla [simp]:
  "currentState (snd (drawSla data s)) = currentState s"
  "currentMapLevel (snd (drawSla data s)) = currentMapLevel s"
  "geoState (snd (drawSla data s)) = geoState s"
  "geoDistrict (snd (drawSla data s)) = geoDistrict s"
  "cache (snd (drawSla data s)) = cache s"
  "clock (snd (drawSla data s)) = clock s"
  "requests (snd (drawSla data s)) = requests s"
  "calls (snd (drawSla data s)) = calls s"
  "persona (snd (drawSla data s)) = persona s"
  "trendMetric (snd (drawSla data s)) = trendMetric s"
  "trendDistrict (snd (drawSla data s)) = trendDistrict s"
  "districtOptions (snd (drawSla data s)) = districtOptions s"
  "rankingType (snd (drawSla data s)) = rankingType s"
  "hasStatusTag (snd (drawSla data s)) = hasStatusTag s"
  "hasBarTop (snd (drawSla data s)) = hasBarTop s"
  "hasSlaBars (snd (drawSla data s)) = hasSlaBars s"
  "hasCircles (snd (drawSla data s)) = hasCircles s"
  "hasWatchlist (snd (drawSla data s)) = hasWatchlist s"
  "breadcrumb (snd (drawSla data s)) = breadcrumb s"
  "compStateName (snd (drawSla data s)) = compStateName s"
  "overviewPanel (snd (drawSla data s)) = overviewPanel s"
  "mapPanel (snd (drawSla data s)) = mapPanel s"
  "rankingList (snd (drawSla data s)) = rankingList s"
  "trendGrid (snd (drawSla data s)) = trendGrid s"
  "alertList (snd (drawSla data s)) = alertList s"
  "failureCharts (snd (drawSla data s)) = failureCharts s"
  "operatorWatchlist (snd (drawSla data s)) = operatorWatchlist s"
  "toasts (snd (drawSla data s)) = toasts s"
  "console (snd (drawSla data s)) = console s"
  "suggestions (snd (drawSla data s)) = suggestions s"
  by (simp_all add: drawSla_def split: sum.splits option.splits)

lemma frame_drawFailures [simp]:
  "currentState (snd (drawFailures data s)) = currentState s"
  "currentMapLevel (snd (drawFailures data s)) = currentMapLevel s"
  "geoState (snd (drawFailures data s)) = geoState s"
  "geoDistrict (snd (drawFailures data s)) = geoDistrict s"
  "cache (snd (drawFailures data s)) = cache s"
  "clock (snd (drawFailures data s)) = clock s"
  "requests (snd (drawFailures data s)) = requests s"
  "calls (snd (drawFailures data s)) = calls s"
  "persona (snd (drawFailures data s)) = persona s"
  "trendMetric (snd (drawFailures data s)) = trendMetric s"
  "trendDistrict (snd (drawFailures data s)) = trendDistrict s"
  "districtOptions (snd (drawFailures data s)) = districtOptions s"
  "rankingType (snd (drawFailures data s)) = rankingType s"
  "hasStatusTag (snd (drawFailures data s)) = hasStatusTag s"
  "hasBarTop (snd (drawFailures data s)) = hasBarTop s"
  "hasSlaBars (snd (drawFailures data s)) = hasSlaBars s"
  "hasCircles (snd (drawFailures data s)) = hasCircles s"
  "hasWatchlist (snd (drawFailures data s)) = hasWatchlist s"
  "breadcrumb (snd (drawFailures data s)) = breadcrumb s"
  "compStateName (snd (drawFailures data s)) = compStateName s"
  "overviewPanel (snd (drawFailures data s)) = overviewPanel s"
  "mapPanel (snd (drawFailures data s)) = mapPanel s"
  "rankingList (snd (drawFailures data s)) = rankingList s"
  "trendGrid (snd (drawFailures data s)) = trendGrid s"
  "alertList (snd (drawFailures data s)) = alertList s"
  "slaBars (snd (drawFailures data s)) = slaBars s"
  "operatorWatchlist (snd (drawFailures data s)) = operatorWatchlist s"
  "toasts (snd (drawFailures data s)) = toasts s"
  "console (snd (drawFailures data s)) = console s"
  "suggestions (snd (drawFailures data s)) = suggestions s"
  by (simp_all add: drawFailures_def split: sum.splits option.splits)

lemma frame_drawWatchlist [simp]:
  "currentState (snd (drawWatchlist data s)) = currentState s"
  "currentMapLevel (snd (drawWatchlist data s)) = currentMapLevel s"
  "geoState (snd (drawWatchlist data s)) = geoState s"
  "geoDistrict (snd (drawWatchlist data s)) = geoDistrict s"
  "cache (snd (drawWatchlist data s)) = cache s"
  "clock (snd (drawWatchlist data s)) = clock s"
  "requests (snd (drawWatchlist data s)) = requests s"
  "calls (snd (drawWatchlist data s)) = calls s"
  "persona (snd (drawWatchlist data s)) = persona s"
  "trendMetric (snd (drawWatchlist data s)) = trendMetric s"
  "trendDistrict (snd (drawWatchlist data s)) = trendDistrict s"
  "districtOptions (snd (drawWatchlist data s)) = districtOptions s"
  "rankingType (snd (drawWatchlist data s)) = rankingType s"
  "hasStatusTag (snd (drawWatchlist data s)) = hasStatusTag s"
  "hasBarTop (snd (drawWatchlist data s)) = hasBarTop s"
  "hasSlaBars (snd (drawWatchlist data s)) = hasSlaBars s"
  "hasCircles (snd (drawWatchlist data s)) = hasCircles s"
  "hasWatchlist (snd (drawWatchlist data s)) = hasWatchlist s"
  "breadcrumb (snd (drawWatchlist data s)) = breadcrumb s"
  "compStateName (snd (drawWatchlist data s)) = compStateName s"
  "overviewPanel (snd (drawWatchlist data s)) = overviewPanel s"
  "mapPanel (snd (drawWatchlist data s)) = mapPanel s"
  "rankingList (snd (drawWatchlist data s)) = rankingList s"
  "trendGrid (snd (drawWatchlist data s)) = trendGrid s"
  "alertList (snd (drawWatchlist data s)) = alertList s"
  "slaBars (snd (drawWatchlist data s)) = slaBars s"
  "failureCharts (snd (drawWatchlist data s)) = failureCharts s"
  "toasts (snd (drawWatchlist data s)) = toasts s"
  "console (snd (drawWatchlist data s)) = console s"
  "suggestions (snd (drawWatchlist data s)) = suggestions s"
  by (simp_all add: drawWatchlist_def split: sum.splits option.splits)

lemma frame_drawOps [simp]:
  "currentState (snd (drawOps data s)) = currentState s"
  "currentMapLevel (snd (drawOps data s)) = currentMapLevel s"
  "geoState (snd (drawOps data s)) = geoState s"
  "geoDistrict (snd (drawOps data s)) = geoDistrict s"
  "cache (snd (drawOps data s)) = cache s"
  "clock (snd (drawOps data s)) = clock s"
  "requests (snd (drawOps data s)) = requests s"
  "calls (snd (drawOps data s)) = calls s"
  "persona (snd (drawOps data s)) = persona s"
  "trendMetric (snd (drawOps data s)) = trendMetric s"
  "trendDistrict (snd (drawOps data s)) = trendDistrict s"
  "districtOptions (snd (drawOps data s)) = districtOptions s"
  "rankingType (snd (drawOps data s)) = rankingType s"
  "hasStatusTag (snd (drawOps data s)) = hasStatusTag s"
  "hasBarTop (snd (drawOps data s)) = hasBarTop s"
  "hasSlaBars (snd (drawOps data s)) = hasSlaBars s"
  "hasCircles (snd (drawOps data s)) = hasCircles s"
  "hasWatchlist (snd (drawOps data s)) = hasWatchlist s"
  "breadcrumb (snd (drawOps data s)) = breadcrumb s"
  "compStateName (snd (drawOps data s)) = compStateName s"
  "overviewPanel (snd (drawOps data s)) = overviewPanel s"
  "mapPanel (snd (drawOps data s)) = mapPanel s"
  "rankingList (snd (drawOps data s)) = rankingList s"
  "trendGrid (snd (drawOps data s)) = trendGrid s"
  "alertList (snd (drawOps data s)) = alertList s"
  "toasts (snd (drawOps data s)) = toasts s"
  "console (snd (drawOps data s)) = console s"
  "suggestions (snd (drawOps data s)) = suggestions s"
  by (simp_all add: drawOps_def case_prod_beta split: option.splits)

lemma frame_loadCriticalOps_begin [simp]:
  "currentState (snd (loadCriticalOps_begin s)) = currentState s"
  "currentMapLevel (snd (loadCriticalOps_begin s)) = currentMapLevel s"
  "geoState (snd (loadCriticalOps_begin s)) = geoState s"
  "geoDistrict (snd (loadCriticalOps_begin s)) = geoDistrict s"
  "cache (snd (loadCriticalOps_begin s)) = cache s"
  "clock (snd (loadCriticalOps_begin s)) = clock s"
  "persona (snd (loadCriticalOps_begin s)) = persona s"
  "trendMetric (snd (loadCriticalOps_begin s)) = trendMetric s"
  "trendDistrict (snd (loadCriticalOps_begin s)) = trendDistrict s"
  "districtOptions (snd (loadCriticalOps_begin s)) = districtOptions s"
  "rankingType (snd (loadCriticalOps_begin s)) = rankingType s"
  "hasStatusTag (snd (loadCriticalOps_begin s)) = hasStatusTag s"
  "hasBarTop (snd (loadCriticalOps_begin s)) = hasBarTop s"
  "hasSlaBars (snd (loadCriticalOps_begin s)) = hasSlaBars s"
  "hasCircles (snd (loadCriticalOps_begin s)) = hasCircles s"
  "hasWatchlist (snd (loadCriticalOps_begin s)) = hasWatchlist s"
  "breadcrumb (snd (loadCriticalOps_begin s)) = breadcrumb s"
  "compStateName (snd (loadCriticalOps_begin s)) = compStateName s"
  "overviewPanel (snd (loadCriticalOps_begin s)) = overviewPanel s"
  "mapPanel (snd (loadCriticalOps_begin s)) = mapPanel s"
  "rankingList (snd (loadCriticalOps_begin s)) = rankingList s"
  "trendGrid (snd (loadCriticalOps_begin s)) = trendGrid s"
  "alertList (snd (loadCriticalOps_begin s)) = alertList s"
  "slaBars (snd (loadCriticalOps_begin s)) = slaBars s"
  "failureCharts (snd (loadCriticalOps_begin s)) = failureCharts s"
  "operatorWatchlist (snd (loadCriticalOps_begin s)) = operatorWatchlist s"
  "toasts (snd (loadCriticalOps_begin s)) = toasts s"
  "console (snd (loadCriticalOps_begin s)) = console s"
  "suggestions (snd (loadCriticalOps_begin s)) = suggestions s"
  by (simp_all add: loadCriticalOps_begin_def)

lemma frame_loadCriticalOps_end [simp]:
  "currentState (loadCriticalOps_end net p s) = currentState s"
  "currentMapLevel (loadCriticalOps_end net p s) = currentMapLevel s"
  "geoState (loadCriticalOps_end net p s) = geoState s"
  "geoDistrict (loadCriticalOps_end net p s) = geoDistrict s"
  "requests (loadCriticalOps_end net p s) = requests s"
  "calls (loadCriticalOps_end net p s) = calls s"
  "persona (loadCriticalOps_end net p s) = persona s"
  "trendMetric (loadCriticalOps_end net p s) = trendMetric s"
  "trendDistrict (loadCriticalOps_end net p s) = trendDistrict s"
  "districtOptions (loadCriticalOps_end net p s) = districtOptions s"
  "rankingType (loadCriticalOps_end net p s) = rankingType s"
  "hasStatusTag (loadCriticalOps_end net p s) = hasStatusTag s"
  "hasBarTop (loadCriticalOps_end net p s) = hasBarTop s"
  "hasSlaBars (loadCriticalOps_end net p s) = hasSlaBars s"
  "hasCircles (loadCriticalOps_end net p s) = hasCircles s"
  "hasWatchlist (loadCriticalOps_end net p s) = hasWatchlist s"
  "breadcrumb (loadCriticalOps_end net p s) = breadcrumb s"
  "compStateName (loadCriticalOps_end net p s) = compStateName s"
  "overviewPanel (loadCriticalOps_end net p s) = overviewPanel s"
  "mapPanel (loadCriticalOps_end net p s) = mapPanel s"
  "rankingList (loadCriticalOps_end net p s) = rankingList s"
  "trendGrid (loadCriticalOps_end net p s) = trendGrid s"
  "alertList (loadCriticalOps_end net p s) = alertList s"
  "toasts (loadCriticalOps_end net p s) = toasts s"
  "suggestions (loadCriticalOps_end net p s) = suggestions s"
  by (simp_all add: loadCriticalOps_end_def case_prod_beta split: sum.splits option.splits)

lemma frame_populateDistrictDropdown_begin [simp]:
  "currentState (snd (populateDistrictDropdown_begin s)) = currentState s"
  "currentMapLevel (snd (populateDistrictDropdown_begin s)) = currentMapLevel s"
  "geoState (snd (populateDistrictDropdown_begin s)) = geoState s"
  "geoDistrict (snd (populateDistrictDropdown_begin s)) = geoDistrict s"
  "cache (snd (populateDistrictDropdown_begin s)) = cache s"
  "clock (snd (populateDistrictDropdown_begin s)) = clock s"
  "persona (snd (populateDistrictDropdown_begin s)) = persona s"
  "trendMetric (snd (populateDistrictDropdown_begin s)) = trendMetric s"
  "trendDistrict (snd (populateDistrictDropdown_begin s)) = trendDistrict s"
  "districtOptions (snd (populateDistrictDropdown_begin s)) = districtOptions s"
  "rankingType (snd (populateDistrictDropdown_begin s)) = rankingType s"
  "hasStatusTag (snd (populateDistrictDropdown_begin s)) = hasStatusTag s"
  "hasBarTop (snd (populateDistrictDropdown_begin s)) = hasBarTop s"
  "hasSlaBars (snd (populateDistrictDropdown_begin s)) = hasSlaBars s"
  "hasCircles (snd (populateDistrictDropdown_begin s)) = hasCircles s"
  "hasWatchlist (snd (populateDistrictDropdown_begin s)) = hasWatchlist s"
  "breadcrumb (snd (populateDistrictDropdown_begin s)) = breadcrumb s"
  "compStateName (snd (populateDistrictDropdown_begin s)) = compStateName s"
  "overviewPanel (snd (populateDistrictDropdown_begin s)) = overviewPanel s"
  "mapPanel (snd (populateDistrictDropdown_begin s)) = mapPanel s"
  "rankingList (snd (populateDistrictDropdown_begin s)) = rankingList s"
  "trendGrid (snd (populateDistrictDropdown_begin s)) = trendGrid s"
  "alertList (snd (populateDistrictDropdown_begin s)) = alertList s"
  "slaBars (snd (populateDistrictDropdown_begin s)) = slaBars s"
  "failureCharts (snd (populateDistrictDropdown_begin s)) = failureCharts s"
  "operatorWatchlist (snd (populateDistrictDropdown_begin s)) = operatorWatchlist s"
  "toasts (snd (populateDistrictDropdown_begin s)) = toasts s"
  "console (snd (populateDistrictDropdown_begin s)) = console s"
  "suggestions (snd (populateDistrictDropdown_begin s)) = suggestions s"
  by (simp_all add: populateDistrictDropdown_begin_def case_prod_beta)

lemma frame_populateDistrictDropdown_end [simp]:
  "currentState (populateDistrictDropdown_end net started s) = currentState s"
  "currentMapLevel (populateDistrictDropdown_end net started s) = currentMapLevel s"
  "geoState (populateDistrictDropdown_end net started s) = geoState s"
  "geoDistrict (populateDistrictDropdown_end net started s) = geoDistrict s"
  "requests (populateDistrictDropdown_end net started s) = requests s"
  "calls (populateDistrictDropdown_end net started s) = calls s"
  "persona (populateDistrictDropdown_end net started s) = persona s"
  "trendMetric (populateDistrictDropdown_end net started s) = trendMetric s"
  "rankingType (populateDistrictDropdown_end net started s) = rankingType s"
  "hasStatusTag (populateDistrictDropdown_end net started s) = hasStatusTag s"
  "hasBarTop (populateDistrictDropdown_end net started s) = hasBarTop s"
  "hasSlaBars (populateDistrictDropdown_end net started s) = hasSlaBars s"
  "hasCircles (populateDistrictDropdown_end net started s) = hasCircles s"
  "hasWatchlist (populateDistrictDropdown_end net started s) = hasWatchlist s"
  "breadcrumb (populateDistrictDropdown_end net started s) = breadcrumb s"
  "compStateName (populateDistrictDropdown_end net started s) = compStateName s"
  "overviewPanel (populateDistrictDropdown_end net started s) = overviewPanel s"
  "mapPanel (populateDistrictDropdown_end net started s) = mapPanel s"
  "rankingList (populateDistrictDropdown_end net started s) = rankingList s"
  "trendGrid (populateDistrictDropdown_end net started s) = trendGrid s"
  "alertList (populateDistrictDropdown_end net started s) = alertList s"
  "slaBars (populateDistrictDropdown_end net started s) = slaBars s"
  "failureCharts (populateDistrictDropdown_end net started s) = failureCharts s"
  "operatorWatchlist (populateDistrictDropdown_end net started s) = operatorWatchlist s"
  "toasts (populateDistrictDropdown_end net started s) = toasts s"
  "suggestions (populateDistrictDropdown_end net started s) = suggestions s"
  by (simp_all add: populateDistrictDropdown_end_def case_prod_beta split: sum.splits option.splits)

lemma frame_hsc_enter [simp]:
  "currentMapLevel (hsc_enter newState s) = currentMapLevel s"
  "geoState (hsc_enter newState s) = geoState s"
  "geoDistrict (hsc_enter newState s) = geoDistrict s"
  "cache (hsc_enter newState s) = cache s"
  "clock (hsc_enter newState s) = clock s"
  "requests (hsc_enter newState s) = requests s"
  "calls (hsc_enter newState s) = calls s"
  "persona (hsc_enter newState s) = persona s"
  "trendMetric (hsc_enter newState s) = trendMetric s"
  "trendDistrict (hsc_enter newState s) = trendDistrict s"
  "districtOptions (hsc_enter newState s) = districtOptions s"
  "rankingType (hsc_enter newState s) = rankingType s"
  "hasStatusTag (hsc_enter newState s) = hasStatusTag s"
  "hasBarTop (hsc_enter newState s) = hasBarTop s"
  "hasSlaBars (hsc_enter newState s) = hasSlaBars s"
  "hasCircles (hsc_enter newState s) = hasCircles s"
  "hasWatchlist (hsc_enter newState s) = hasWatchlist s"
  "breadcrumb (hsc_enter newState s) = breadcrumb s"
  "compStateName (hsc_enter newState s) = compStateName s"
  "overviewPanel (hsc_enter newState s) = overviewPanel s"
  "mapPanel (hsc_enter newState s) = mapPanel s"
  "rankingList (hsc_enter newState s) = rankingList s"
  "trendGrid (hsc_enter newState s) = trendGrid s"
  "alertList (hsc_enter newState s) = alertList s"
  "slaBars (hsc_enter newState s) = slaBars s"
  "failureCharts (hsc_enter newState s) = failureCharts s"
  "operatorWatchlist (hsc_enter newState s) = operatorWatchlist s"
  "toasts (hsc_enter newState s) = toasts s"
  "console (hsc_enter newState s) = console s"
  "suggestions (hsc_enter newState s) = suggestions s"
  by (simp_all add: hsc_enter_def)

lemma frame_hsc_breadcrumb [simp]:
  "currentState (hsc_breadcrumb newState s) = currentState s"
  "geoState (hsc_breadcrumb newState s) = geoState s"
  "geoDistrict (hsc_breadcrumb newState s) = geoDistrict s"
  "cache (hsc_breadcrumb newState s) = cache s"
  "clock (hsc_breadcrumb newState s) = clock s"
  "requests (hsc_breadcrumb newState s) = requests s"
  "calls (hsc_breadcrumb newState s) = calls s"
  "persona (hsc_breadcrumb newState s) = persona s"
  "trendMetric (hsc_breadcrumb newState s) = trendMetric s"
  "trendDistrict (hsc_breadcrumb newState s) = trendDistrict s"
  "districtOptions (hsc_breadcrumb newState s) = districtOptions s"
  "rankingType (hsc_breadcrumb newState s) = rankingType s"
  "hasStatusTag (hsc_breadcrumb newState s) = hasStatusTag s"
  "hasBarTop (hsc_breadcrumb newState s) = hasBarTop s"
  "hasSlaBars (hsc_breadcrumb newState s) = hasSlaBars s"
  "hasCircles (hsc_breadcrumb newState s) = hasCircles s"
  "hasWatchlist (hsc_breadcrumb newState s) = hasWatchlist s"
  "compStateName (hsc_breadcrumb newState s) = compStateName s"
  "overviewPanel (hsc_breadcrumb newState s) = overviewPanel s"
  "mapPanel (hsc_breadcrumb newState s) = mapPanel s"
  "rankingList (hsc_breadcrumb newState s) = rankingList s"
  "trendGrid (hsc_breadcrumb newState s) = trendGrid s"
  "alertList (hsc_breadcrumb newState s) = alertList s"
  "slaBars (hsc_breadcrumb newState s) = slaBars s"
  "failureCharts (hsc_breadcrumb newState s) = failureCharts s"
  "operatorWatchlist (hsc_breadcrumb newState s) = operatorWatchlist s"
  "toasts (hsc_breadcrumb newState s) = toasts s"
  "console (hsc_breadcrumb newState s) = console s"
  "suggestions (hsc_breadcrumb newState s) = suggestions s"
  by (simp_all add: hsc_breadcrumb_def)

lemma frame_hsc_leave [simp]:
  "currentState (hsc_leave newState s) = currentState s"
  "currentMapLevel (hsc_leave newState s) = currentMapLevel s"
  "geoState (hsc_leave newState s) = geoState s"
  "geoDistrict (hsc_leave newState s) = geoDistrict s"
  "cache (hsc_leave newState s) = cache s"
  "clock (hsc_leave newState s) = clock s"
  "requests (hsc_leave newState s) = requests s"
  "calls (hsc_leave newState s) = calls s"
  "persona (hsc_leave newState s) = persona s"
  "trendMetric (hsc_leave newState s) = trendMetric s"
  "trendDistrict (hsc_leave newState s) = trendDistrict s"
  "districtOptions (hsc_leave newState s) = districtOptions s"
  "rankingType (hsc_leave newState s) = rankingType s"
  "hasStatusTag (hsc_leave newState s) = hasStatusTag s"
  "hasBarTop (hsc_leave newState s) = hasBarTop s"
  "hasSlaBars (hsc_leave newState s) = hasSlaBars s"
  "hasCircles (hsc_leave newState s) = hasCircles s"
  "hasWatchlist (hsc_leave newState s) = hasWatchlist s"
  "breadcrumb (hsc_leave newState s) = breadcrumb s"
  "overviewPanel (hsc_leave newState s) = overviewPanel s"
  "mapPanel (hsc_leave newState s) = mapPanel s"
  "rankingList (hsc_leave newState s) = rankingList s"
  "trendGrid (hsc_leave newState s) = trendGrid s"
  "alertList (hsc_leave newState s) = alertList s"
  "slaBars (hsc_leave newState s) = slaBars s"
  "failureCharts (hsc_leave newState s) = failureCharts s"
  "operatorWatchlist (hsc_leave newState s) = operatorWatchlist s"
  "console (hsc_leave newState s) = console s"
  "suggestions (hsc_leave newState s) = suggestions s"
  by (simp_all add: hsc_leave_def)

lemma frame_hsc_reload_begin [simp]:
  "currentState (snd (hsc_reload_begin newState s)) = currentState s"
  "currentMapLevel (snd (hsc_reload_begin newState s)) = currentMapLevel s"
  "geoState (snd (hsc_reload_begin newState s)) = geoState s"
  "geoDistrict (snd (hsc_reload_begin newState s)) = geoDistrict s"
  "cache (snd (hsc_reload_begin newState s)) = cache s"
  "clock (snd (hsc_reload_begin newState s)) = clock s"
  "persona (snd (hsc_reload_begin newState s)) = persona s"
  "trendMetric (snd (hsc_reload_begin newState s)) = trendMetric s"
  "trendDistrict (snd (hsc_reload_begin newState s)) = trendDistrict s"
  "districtOptions (snd (hsc_reload_begin newState s)) = districtOptions s"
  "rankingType (snd (hsc_reload_begin newState s)) = rankingType s"
  "hasStatusTag (snd (hsc_reload_begin newState s)) = hasStatusTag s"
  "hasBarTop (snd (hsc_reload_begin newState s)) = hasBarTop s"
  "hasSlaBars (snd (hsc_reload_begin newState s)) = hasSlaBars s"
  "hasCircles (snd (hsc_reload_begin newState s)) = hasCircles s"
  "hasWatchlist (snd (hsc_reload_begin newState s)) = hasWatchlist s"
  "breadcrumb (snd (hsc_reload_begin newState s)) = breadcrumb s"
  "compStateName (snd (hsc_reload_begin newState s)) = compStateName s"
  "overviewPanel (snd (hsc_reload_begin newState s)) = overviewPanel s"
  "mapPanel (snd (hsc_reload_begin newState s)) = mapPanel s"
  "rankingList (snd (hsc_reload_begin newState s)) = rankingList s"
  "trendGrid (snd (hsc_reload_begin newState s)) = trendGrid s"
  "alertList (snd (hsc_reload_begin newState s)) = alertList s"
  "slaBars (snd (hsc_reload_begin newState s)) = slaBars s"
  "failureCharts (snd (hsc_reload_begin newState s)) = failureCharts s"
  "operatorWatchlist (snd (hsc_reload_begin newState s)) = operatorWatchlist s"
  "toasts (snd (hsc_reload_begin newState s)) = toasts s"
  "console (snd (hsc_reload_begin newState s)) = console s"
  "suggestions (snd (hsc_reload_begin newState s)) = suggestions s"
  by (simp_all add: hsc_reload_begin_def case_prod_beta)

lemma frame_hsc_reload_end [simp]:
  "currentState (hsc_reload_end net newState started s) = currentState s"
  "currentMapLevel (hsc_reload_end net newState started s) = currentMapLevel s"
  "calls (hsc_reload_end net newState started s) = calls s"
  "persona (hsc_reload_end net newState started s) = persona s"
  "trendMetric (hsc_reload_end net newState started s) = trendMetric s"
  "trendDistrict (hsc_reload_end net newState started s) = trendDistrict s"
  "districtOptions (hsc_reload_end net newState started s) = districtOptions s"
  "rankingType (hsc_reload_end net newState started s) = rankingType s"
  "hasStatusTag (hsc_reload_end net newState started s) = hasStatusTag s"
  "hasBarTop (hsc_reload_end net newState started s) = hasBarTop s"
  "hasSlaBars (hsc_reload_end net newState started s) = hasSlaBars s"
  "hasCircles (hsc_reload_end net newState started s) = hasCircles s"
  "hasWatchlist (hsc_reload_end net newState started s) = hasWatchlist s"
  "breadcrumb (hsc_reload_end net newState started s) = breadcrumb s"
  "compStateName (hsc_reload_end net newState started s) = compStateName s"
  "overviewPanel (hsc_reload_end net newState started s) = overviewPanel s"
  "alertList (hsc_reload_end net newState started s) = alertList s"
  "suggestions (hsc_reload_end net newState started s) = suggestions s"
  by (simp_all add: hsc_reload_end_def Let_def)

lemma hsc_enter_region [simp]: "currentState (hsc_enter newState s) = newState"
  by (simp add: hsc_enter_def)

lemma hsc_breadcrumb_level [simp]:
  "currentMapLevel (hsc_breadcrumb newState s) = (if newState = ''National'' then State else District)"
  by (simp add: hsc_breadcrumb_def)

text \<open>The two parts of the stretch that follows the district selector.\<close>

lemma fst_hsc_after_dropdown:
  "fst (hsc_after_dropdown net newState s) = snd (hsc_reload_begin newState (hsc_breadcrumb newState s))"
  by (simp add: hsc_after_dropdown_def case_prod_beta)

lemma snd_hsc_after_dropdown:
  "snd (hsc_after_dropdown net newState s) t =
     hsc_leave newState (hsc_reload_end net newState (fst (hsc_reload_begin newState (hsc_breadcrumb newState s))) t)"
  by (simp add: hsc_after_dropdown_def case_prod_beta)

lemma hsc_stretches_National:
  "hsc_stretches net ''National'' s =
     (fst (hsc_after_dropdown net ''National'' (hsc_enter ''National'' s)),
      Last (snd (hsc_after_dropdown net ''National'' (hsc_enter ''National'' s))))"
  by (simp add: hsc_stretches_def Let_def case_prod_beta)

lemma hsc_stretches_region:
  "newState \<noteq> ''National'' \<Longrightarrow>
   hsc_stretches net newState s =
     (snd (populateDistrictDropdown_begin (hsc_enter newState s)),
      Next (\<lambda>t. hsc_after_dropdown net newState
                 (populateDistrictDropdown_end net (fst (populateDistrictDropdown_begin (hsc_enter newState s))) t)))"
  by (simp add: hsc_stretches_def Let_def case_prod_beta)

text \<open>Run alone, a call of \<^verbatim>\<open>handleStateChange\<close> ends with the region it was given and the
  level that goes with it.\<close>

lemma nav_handleStateChange:
  "nav (handleStateChange net newState s) =
     (persona s, newState, if newState = ''National'' then State else District)"
proof (cases "newState = ''National''")
  case True
  then show ?thesis
    by (simp add: handleStateChange_def hsc_stretches_National nav_def
                  fst_hsc_after_dropdown snd_hsc_after_dropdown)
next
  case False
  then show ?thesis
    by (simp add: handleStateChange_def hsc_stretches_region nav_def case_prod_beta
                  fst_hsc_after_dropdown snd_hsc_after_dropdown)
qed

lemma handleStateChange_invariant: "nav_invariant (handleStateChange net newState s)"
  using nav_handleStateChange [of net newState s] by (simp add: nav_invariant_def nav_def)

text \<open>
  One call with two stretches left and one call with one stretch left, where the first
  stretch of the former assigns the district level and no other stretch touches region
  or level: in each of the three orders of resumption the region is the one found and
  the level is the district level.
\<close>

lemma interleave_Next_Last:
  assumes x1: "\<And>t. currentState (fst (kx t)) = currentState t \<and> currentMapLevel (fst (kx t)) = District"
      and x2: "\<And>t u. currentState (snd (kx t) u) = currentState u
                      \<and> currentMapLevel (snd (kx t) u) = currentMapLevel u"
      and y: "\<And>t. currentState (ky t) = currentState t \<and> currentMapLevel (ky t) = currentMapLevel t"
  shows "currentState (interleave order (Next kx) (Last ky) s) = currentState s
       \<and> currentMapLevel (interleave order (Next kx) (Last ky) s) = District"
proof (cases order)
  case Nil
  then show ?thesis by (simp add: case_prod_beta x1 x2 y)
next
  case (Cons first rest)
  show ?thesis
  proof (cases first)
    case True
    show ?thesis
    proof (cases rest)
      case Nil
      with Cons True show ?thesis by (simp add: case_prod_beta x1 x2 y)
    next
      case (Cons second rest')
      with \<open>order = first # rest\<close> True show ?thesis
        by (cases second) (simp_all add: case_prod_beta x1 x2 y)
    qed
  next
    case False
    with Cons show ?thesis by (simp add: case_prod_beta x1 x2 y)
  qed
qed

text \<open>
  A drill-down into a region followed at once by the drill-down back to National: the
  first call is suspended at \<^verbatim>\<open>await this.populateDistrictDropdown()\<close> before it has
  assigned the map level, the second call assigns region and level without suspending,
  and the first call, resumed, then assigns the level of its own region. In every order
  of resumption the region is National and the level is the district level.
\<close>

lemma drillDown_twice_back:
  assumes "x \<noteq> ''National''"
  shows "currentState (drillDown_twice net order x ''National'' s) = ''National''
       \<and> currentMapLevel (drillDown_twice net order x ''National'' s) = District"
proof -
  let ?s1 = "snd (populateDistrictDropdown_begin (hsc_enter x s))"
  let ?kx = "\<lambda>t. hsc_after_dropdown net x
                 (populateDistrictDropdown_end net (fst (populateDistrictDropdown_begin (hsc_enter x s))) t)"
  let ?s2 = "fst (hsc_after_dropdown net ''National'' (hsc_enter ''National'' ?s1))"
  let ?ky = "snd (hsc_after_dropdown net ''National'' (hsc_enter ''National'' ?s1))"
  have eq: "drillDown_twice net order x ''National'' s = interleave order (Next ?kx) (Last ?ky) ?s2"
    using assms by (simp add: drillDown_twice_def hsc_stretches_region hsc_stretches_National)
  have start: "currentState ?s2 = ''National''"
    by (simp add: fst_hsc_after_dropdown)
  have x1: "currentState (fst (?kx t)) = currentState t \<and> currentMapLevel (fst (?kx t)) = District" for t
    using assms by (simp add: fst_hsc_after_dropdown)
  have x2: "currentState (snd (?kx t) u) = currentState u
          \<and> currentMapLevel (snd (?kx t) u) = currentMapLevel u" for t u
    by (simp add: snd_hsc_after_dropdown)
  have y: "currentState (?ky t) = currentState t \<and> currentMapLevel (?ky t) = currentMapLevel t" for t
    by (simp add: snd_hsc_after_dropdown)
  from interleave_Next_Last [of ?kx ?ky order ?s2, OF x1 x2 y] start show ?thesis
    unfolding eq by simp
qed

text \<open>
  C2. The claim fails on the code at \<^verbatim>\<open>drillDown('Bihar')\<close> followed at once by
  \<^verbatim>\<open>drillDown('National')\<close>: for every network and every order in which the two calls
  are resumed, the navigation state ends with region National and the district level,
  which is not the state the second call leads to on its own (National, state level).
\<close>

theorem drillDown_Bihar_then_National:
  "currentState (drillDown_twice net order ''Bihar'' ''National'' s) = ''National''
   \<and> currentMapLevel (drillDown_twice net order ''Bihar'' ''National'' s) = District"
  using drillDown_twice_back [of "''Bihar''" net order s] by simp

text \<open>
  C3. The invariant fails on the code after \<^verbatim>\<open>drillDown('Maharashtra')\<close> followed at
  once by \<^verbatim>\<open>drillDown('National')\<close>: when both transitions have completed, in
  whatever order, the region is National and the level is the district level.
\<close>

theorem invariant_lost_Maharashtra_National:
  "\<not> nav_invariant (drillDown_twice net order ''Maharashtra'' ''National'' s)"
  using drillDown_twice_back [of "''Maharashtra''" net order s]
  by (simp add: nav_invariant_def)


section \<open>The operations persona\<close>















section \<open>Time to live\<close>






section \<open>The geometry store\<close>

lemma loadGeoJSON_loaded: "geoLoaded s lvl \<Longrightarrow> loadGeoJSON net lvl s = (Inr (), s)"
  by (simp add: loadGeoJSON_def)

lemma geoData_set_geoData [simp]: "geoData (set_geoData lvl g s) lvl = Some g"
  by (cases lvl) simp_all

text \<open>
  C6 (amended). A load that finds a truthy document in memory does nothing at all.
  Otherwise it requests the local file; if that answers \<^verbatim>\<open>ok\<close> with a JSON body the body
  is stored and nothing else is requested; if the local read fails the remote file is
  requested as well, and its body is stored if it has one, whatever the status. A load
  that fails stores nothing. So once a load has left a bundle in memory, every later
  load of that granularity does no I/O, whatever the network; a load that failed is
  repeated in full by the next call.
\<close>

theorem loadGeoJSON_once:
  assumes "net (length (requests s)) (localUrl lvl) = (d1, r1)"
      and "net (Suc (length (requests s))) (remoteUrl lvl) = (d2, r2)"
  shows "(if geoLoaded s lvl then loadGeoJSON net lvl s = (Inr (), s)
          else (case reply_data r1 of
                  Inr g \<Rightarrow>
                    fst (loadGeoJSON net lvl s) = Inr ()
                    \<and> requests (snd (loadGeoJSON net lvl s)) = requests s @ [localUrl lvl]
                    \<and> geoData (snd (loadGeoJSON net lvl s)) lvl = Some g
                | Inl e \<Rightarrow>
                    requests (snd (loadGeoJSON net lvl s)) = requests s @ [localUrl lvl, remoteUrl lvl]
                    \<and> (case r2 of
                          Response ok (Some g') \<Rightarrow>
                            fst (loadGeoJSON net lvl s) = Inr ()
                            \<and> geoData (snd (loadGeoJSON net lvl s)) lvl = Some g'
                        | Response ok None \<Rightarrow>
                            fst (loadGeoJSON net lvl s) = Inl SyntaxError
                            \<and> geoData (snd (loadGeoJSON net lvl s)) lvl = geoData s lvl
                        | Rejected \<Rightarrow>
                            fst (loadGeoJSON net lvl s) = Inl NetworkError
                            \<and> geoData (snd (loadGeoJSON net lvl s)) lvl = geoData s lvl)))
       \<and> (geoLoaded (snd (loadGeoJSON net lvl s)) lvl \<longrightarrow>
            loadGeoJSON net' lvl (snd (loadGeoJSON net lvl s)) = (Inr (), snd (loadGeoJSON net lvl s)))"
proof -
  let ?s1 = "s\<lparr>clock := clock s + d1, requests := requests s @ [localUrl lvl]\<rparr>"
  let ?s2 = "?s1\<lparr>clock := clock ?s1 + d2, requests := requests ?s1 @ [remoteUrl lvl]\<rparr>"
  have f1: "fetch net (localUrl lvl) s = (r1, ?s1)"
    using assms(1) by (rule fetch_eq)
  have f2: "fetch net (remoteUrl lvl) ?s1 = (r2, ?s2)"
    using assms(2) by (intro fetch_eq) simp
  have g2: "geoData ?s2 lvl = geoData s lvl"
    by (cases lvl; simp)
  have rq: "requests (set_geoData lvl g' t) = requests t" for g' t
    by (cases lvl) simp_all
  have local_ok: "loadGeoJSON net lvl s = (Inr (), set_geoData lvl g ?s1)"
    if "\<not> geoLoaded s lvl" "reply_data r1 = Inr g" for g
  proof -
    from that(2) have "r1 = Response True (Some g)"
      by (cases r1) (simp_all split: if_splits option.splits)
    with that(1) f1 show ?thesis by (simp add: loadGeoJSON_def)
  qed
  have local_failed: "loadGeoJSON net lvl s =
      (case r2 of
         Rejected \<Rightarrow> (Inl NetworkError, ?s2)
       | Response ok None \<Rightarrow> (Inl SyntaxError, ?s2)
       | Response ok (Some g') \<Rightarrow> (Inr (), set_geoData lvl g' ?s2))"
    if "\<not> geoLoaded s lvl" "reply_data r1 = Inl e" for e
  proof -
    from that(2) have "\<forall>g'. r1 \<noteq> Response True (Some g')"
      by (cases r1) (auto split: if_splits option.splits)
    with that(1) f1 f2 show ?thesis
      by (simp add: loadGeoJSON_def split: fetch_result.splits option.splits bool.splits)
  qed
  have first: "if geoLoaded s lvl then loadGeoJSON net lvl s = (Inr (), s)
          else (case reply_data r1 of
                  Inr g \<Rightarrow>
                    fst (loadGeoJSON net lvl s) = Inr ()
                    \<and> requests (snd (loadGeoJSON net lvl s)) = requests s @ [localUrl lvl]
                    \<and> geoData (snd (loadGeoJSON net lvl s)) lvl = Some g
                | Inl e \<Rightarrow>
                    requests (snd (loadGeoJSON net lvl s)) = requests s @ [localUrl lvl, remoteUrl lvl]
                    \<and> (case r2 of
                          Response ok (Some g') \<Rightarrow>
                            fst (loadGeoJSON net lvl s) = Inr ()
                            \<and> geoData (snd (loadGeoJSON net lvl s)) lvl = Some g'
                        | Response ok None \<Rightarrow>
                            fst (loadGeoJSON net lvl s) = Inl SyntaxError
                            \<and> geoData (snd (loadGeoJSON net lvl s)) lvl = geoData s lvl
                        | Rejected \<Rightarrow>
                            fst (loadGeoJSON net lvl s) = Inl NetworkError
                            \<and> geoData (snd (loadGeoJSON net lvl s)) lvl = geoData s lvl))"
  proof (cases "geoLoaded s lvl")
    case True
    then show ?thesis by (simp add: loadGeoJSON_loaded)
  next
    case False
    show ?thesis
    proof (cases "reply_data r1")
      case (Inr g)
      with False local_ok [OF False Inr] show ?thesis by (simp add: rq)
    next
      case (Inl e)
      with False local_failed [OF False Inl] g2 show ?thesis
        by (simp add: rq split: fetch_result.splits option.splits)
    qed
  qed
  have again: "geoLoaded (snd (loadGeoJSON net lvl s)) lvl \<longrightarrow>
            loadGeoJSON net' lvl (snd (loadGeoJSON net lvl s)) = (Inr (), snd (loadGeoJSON net lvl s))"
    by (simp add: loadGeoJSON_loaded)
  from first again show ?thesis by (rule conjI)
qed

text \<open>With the files served by the page, the state geometry is read once from the
  local file and a second load sends nothing even with the network down; where the
  page does not ship the files, the district geometry comes from the remote source.\<close>

theorem loadGeoJSON_once_witness:
  "backend (length (requests page0)) (localUrl State) = (40, Response True (Some (backend_doc (localUrl State))))
   \<and> backend (Suc (length (requests page0))) (remoteUrl State) = (40, Response True (Some (backend_doc (remoteUrl State))))
   \<and> requests (snd (loadGeoJSON backend State page0)) = [''data/india_state.geojson'']
   \<and> geoLoaded (snd (loadGeoJSON backend State page0)) State
   \<and> loadGeoJSON offline State (snd (loadGeoJSON backend State page0))
       = (Inr (), snd (loadGeoJSON backend State page0))
   \<and> local_missing (length (requests page0)) (localUrl District) = (5, Response False None)
   \<and> local_missing (Suc (length (requests page0))) (remoteUrl District)
       = (40, Response True (Some (backend_doc (remoteUrl District))))
   \<and> requests (snd (loadGeoJSON local_missing District page0)) =
       [''data/india_district.geojson'',
        ''https://raw.githubusercontent.com/geohacker/india/master/district/india_district.geojson'']
   \<and> geoData (snd (loadGeoJSON local_missing District page0)) District
       = Some (JObj [(''type'', JStr ''FeatureCollection''), (''features'', JArr [])])"
proof -
  have h1: "backend (length (requests page0)) (localUrl State) = (40, Response True (Some (backend_doc (localUrl State))))"
    by (simp add: backend_def)
  have h2: "backend (Suc (length (requests page0))) (remoteUrl State) = (40, Response True (Some (backend_doc (remoteUrl State))))"
    by (simp add: backend_def)
  have new: "\<not> geoLoaded page0 State" "\<not> geoLoaded page0 District"
    by (simp_all add: geoLoaded_def page0_def)
  have doc: "backend_doc (localUrl State) = JObj [(''type'', JStr ''FeatureCollection''), (''features'', JArr [])]"
            "backend_doc ''https://raw.githubusercontent.com/geohacker/india/master/district/india_district.geojson''
               = JObj [(''type'', JStr ''FeatureCollection''), (''features'', JArr [])]"
    by code_simp+
  have rq: "requests page0 = []"
    by (simp add: page0_def)
  note inst = loadGeoJSON_once [of backend page0 State 40 "Response True (Some (backend_doc (localUrl State)))"
                                  40 "Response True (Some (backend_doc (remoteUrl State)))" offline, OF h1 h2]
  from inst new have a: "requests (snd (loadGeoJSON backend State page0)) = [''data/india_state.geojson'']"
    and b: "geoData (snd (loadGeoJSON backend State page0)) State = Some (backend_doc (localUrl State))"
    by (simp_all add: rq localUrl_def)
  from b have c: "geoLoaded (snd (loadGeoJSON backend State page0)) State"
    by (simp add: geoLoaded_def doc)
  with inst have d: "loadGeoJSON offline State (snd (loadGeoJSON backend State page0))
       = (Inr (), snd (loadGeoJSON backend State page0))"
    by blast
  have k1: "local_missing (length (requests page0)) (localUrl District) = (5, Response False None)"
    by (simp add: local_missing_def localUrl_def)
  have k2: "local_missing (Suc (length (requests page0))) (remoteUrl District)
       = (40, Response True (Some (backend_doc (remoteUrl District))))"
    by (simp add: local_missing_def remoteUrl_def backend_def)
  note inst2 = loadGeoJSON_once [of local_missing page0 District 5 "Response False None"
                                  40 "Response True (Some (backend_doc (remoteUrl District)))" offline, OF k1 k2]
  from inst2 new have e: "requests (snd (loadGeoJSON local_missing District page0)) =
       [''data/india_district.geojson'',
        ''https://raw.githubusercontent.com/geohacker/india/master/district/india_district.geojson'']"
    and f: "geoData (snd (loadGeoJSON local_missing District page0)) District
       = Some (JObj [(''type'', JStr ''FeatureCollection''), (''features'', JArr [])])"
    by (simp_all add: rq localUrl_def remoteUrl_def doc)
  from h1 h2 a c d k1 k2 e f show ?thesis by (intro conjI)
qed

text \<open>C6 as stated fails when both sources are out of reach: the second load requests
  both files again, so two loads make four requests, two of them to the remote source.\<close>

theorem loadGeoJSON_retries:
  "requests (snd (loadGeoJSON offline State (snd (loadGeoJSON offline State page0)))) =
     [''data/india_state.geojson'',
      ''https://raw.githubusercontent.com/geohacker/india/master/state/india_state.geojson'',
      ''data/india_state.geojson'',
      ''https://raw.githubusercontent.com/geohacker/india/master/state/india_state.geojson'']"
  by code_simp


end
